theory Spec2Isabelle
  imports
    Complex_Main
    "HOL-Library.AList"
    "HOL-Library.Char_ord"
    "HOL-Library.List_Lexorder"
    "HOL-Library.Sublist"
begin

section \<open>JavaScript values\<close>

text \<open>
  The worker adapter (\<^verbatim>\<open>client/src/services/OllamaService.ts\<close>) and the gateway routes
  (\<^verbatim>\<open>server/src/routes/openai.ts\<close>) handle JSON data of type \<^verbatim>\<open>any\<close>. A JSON value is a
  \<open>jsval\<close>; an object is its property list in insertion order with unique keys. Numbers
  are reals (the code only compares them with constants and adds token counts).
\<close>

datatype jsval =
    JUndefined
  | JNull
  | JBool bool
  | JNum real
  | JStr string
  | JArr "jsval list"
  | JObj "(string \<times> jsval) list"

type_synonym jsobject = "(string \<times> jsval) list"

text \<open>Truthiness, as used by \<^verbatim>\<open>if (x)\<close>, \<^verbatim>\<open>!x\<close> and \<^verbatim>\<open>x || y\<close>.\<close>

fun truthy :: "jsval \<Rightarrow> bool" where
  "truthy JUndefined = False"
| "truthy JNull = False"
| "truthy (JBool b) = b"
| "truthy (JNum x) = (x \<noteq> 0)"
| "truthy (JStr s) = (s \<noteq> [])"
| "truthy (JArr xs) = True"
| "truthy (JObj kvs) = True"

definition js_or :: "jsval \<Rightarrow> jsval \<Rightarrow> jsval" where
  "js_or a b = (if truthy a then a else b)"

text \<open>\<^verbatim>\<open>o.k\<close> on an object: the property's value, \<^verbatim>\<open>undefined\<close> when absent.\<close>

definition obj_get :: "jsobject \<Rightarrow> string \<Rightarrow> jsval" where
  "obj_get kvs k = (case map_of kvs k of None \<Rightarrow> JUndefined | Some v \<Rightarrow> v)"

text \<open>
  \<^verbatim>\<open>v.k\<close> on any value, for the property names the code reads (none of them is a built-in
  property of a string, number, boolean or array): \<open>None\<close> is the TypeError that reading a
  property of \<^verbatim>\<open>null\<close> or \<^verbatim>\<open>undefined\<close> raises.
\<close>

fun js_get :: "jsval \<Rightarrow> string \<Rightarrow> jsval option" where
  "js_get JUndefined k = None"
| "js_get JNull k = None"
| "js_get (JObj kvs) k = Some (obj_get kvs k)"
| "js_get v k = Some JUndefined"

text \<open>\<^verbatim>\<open>v?.k\<close>: optional chaining gives \<^verbatim>\<open>undefined\<close> on \<^verbatim>\<open>null\<close> and \<^verbatim>\<open>undefined\<close>.\<close>

definition js_get_opt :: "jsval \<Rightarrow> string \<Rightarrow> jsval" where
  "js_get_opt v k = (case js_get v k of None \<Rightarrow> JUndefined | Some x \<Rightarrow> x)"

text \<open>Decimal rendering of an array index, the key of an indexed property.\<close>

fun string_of_nat :: "nat \<Rightarrow> string" where
  "string_of_nat n =
     (if n < 10 then [char_of (48 + n)]
      else string_of_nat (n div 10) @ [char_of (48 + n mod 10)])"

text \<open>
  The own enumerable properties that an object spread \<^verbatim>\<open>{...v}\<close> copies: the properties of
  an object, the indexed elements of an array, the indexed characters of a string, and
  nothing for the other values.
\<close>

fun spread_props :: "jsval \<Rightarrow> jsobject" where
  "spread_props (JObj kvs) = kvs"
| "spread_props (JArr xs) = map (\<lambda>i. (string_of_nat i, xs ! i)) [0..<length xs]"
| "spread_props (JStr s) = map (\<lambda>i. (string_of_nat i, JStr [s ! i])) [0..<length s]"
| "spread_props v = []"

text \<open>
  Setting a property: \<open>AList.update\<close> overwrites the value of an existing key in place and
  appends a new key at the end, as a JavaScript object does. An object literal with a
  spread, \<^verbatim>\<open>{a: x, ...v}\<close> or \<^verbatim>\<open>{...v, a: x}\<close>, sets its properties from left to right.
\<close>

definition obj_set :: "string \<Rightarrow> jsval \<Rightarrow> jsobject \<Rightarrow> jsobject" where
  "obj_set k v kvs = AList.update k v kvs"

definition obj_assign :: "jsobject \<Rightarrow> jsobject \<Rightarrow> jsobject" where
  "obj_assign target props = foldl (\<lambda>acc (k, v). obj_set k v acc) target props"

section \<open>The worker adapter: non-streaming operations\<close>

text \<open>
  \<^verbatim>\<open>InferenceRequest\<close> as the adapter reads it. \<^verbatim>\<open>options\<close> and \<^verbatim>\<open>metadata\<close> are optional
  bags of fields; \<^verbatim>\<open>prompt\<close> and \<^verbatim>\<open>input\<close> are \<^verbatim>\<open>undefined\<close> when the request has another shape.
\<close>

record inference_request =
  ir_id :: string
  ir_model :: string
  ir_prompt :: jsval
  ir_input :: jsval
  ir_stream :: bool
  ir_options :: "jsobject option"
  ir_priority :: string
  ir_timeout :: int
  ir_metadata :: "jsobject option"

text \<open>\<^verbatim>\<open>request.metadata?.k\<close>\<close>

definition metadata_get :: "inference_request \<Rightarrow> string \<Rightarrow> jsval" where
  "metadata_get request k =
     (case ir_metadata request of None \<Rightarrow> JUndefined | Some m \<Rightarrow> obj_get m k)"

text \<open>\<^verbatim>\<open>request.options || {}\<close>\<close>

definition options_or_empty :: "inference_request \<Rightarrow> jsval" where
  "options_or_empty request =
     (case ir_options request of None \<Rightarrow> JObj [] | Some opts \<Rightarrow> JObj opts)"

text \<open>\<^verbatim>\<open>if (request.metadata?.k) { payload.k = request.metadata.k; }\<close>, for each key in turn.\<close>

fun copy_truthy :: "inference_request \<Rightarrow> string list \<Rightarrow> jsobject \<Rightarrow> jsobject" where
  "copy_truthy request [] payload = payload"
| "copy_truthy request (k # ks) payload =
     copy_truthy request ks
       (if truthy (metadata_get request k) then obj_set k (metadata_get request k) payload
        else payload)"

text \<open>\<^verbatim>\<open>if (request.metadata?.k !== undefined) { payload.k = request.metadata.k; }\<close>\<close>

fun copy_defined :: "inference_request \<Rightarrow> string list \<Rightarrow> jsobject \<Rightarrow> jsobject" where
  "copy_defined request [] payload = payload"
| "copy_defined request (k # ks) payload =
     copy_defined request ks
       (if metadata_get request k \<noteq> JUndefined then obj_set k (metadata_get request k) payload
        else payload)"

definition generate_payload :: "inference_request \<Rightarrow> bool \<Rightarrow> jsobject" where
  "generate_payload request stream =
     copy_truthy request
       [''think'', ''suffix'', ''images'', ''format'', ''system'', ''template'', ''raw'',
        ''keep_alive'', ''context'']
       [(''model'', JStr (ir_model request)),
        (''prompt'', ir_prompt request),
        (''stream'', JBool stream),
        (''options'', options_or_empty request)]"

text \<open>
  The HTTP client (axios) is a parameter: \<open>post url payload\<close> is \<open>Inr data\<close> with the parsed
  response body, or \<open>Inl message\<close> when the call throws. The adapter's methods return
  \<open>Inr result\<close> or \<open>Inl message\<close> for the \<^verbatim>\<open>Error\<close> they throw. Calls of the logger that
  cannot throw are left out.
\<close>

type_synonym http_post = "string \<Rightarrow> jsobject \<Rightarrow> string + jsval"

definition generateResponse :: "http_post \<Rightarrow> inference_request \<Rightarrow> string + jsobject" where
  "generateResponse post request =
     (case post ''/api/generate'' (generate_payload request False) of
        Inl message \<Rightarrow> Inl (''Inference failed: '' @ message)
      | Inr data \<Rightarrow> Inr (obj_set ''id'' (JStr (ir_id request)) (obj_assign [] (spread_props data))))"

definition embed_payload :: "inference_request \<Rightarrow> jsobject" where
  "embed_payload request =
     copy_defined request [''truncate'', ''keep_alive'']
       [(''model'', JStr (ir_model request)),
        (''input'', ir_input request),
        (''options'', options_or_empty request)]"

text \<open>The message of the TypeError for \<^verbatim>\<open>v.k\<close> on \<^verbatim>\<open>null\<close> or \<^verbatim>\<open>undefined\<close> (V8's wording).\<close>

definition type_error_message :: "jsval \<Rightarrow> string \<Rightarrow> string" where
  "type_error_message v k =
     ''Cannot read properties of '' @ (if v = JNull then ''null'' else ''undefined'') @
     '' (reading '' @ [CHR 0x27] @ k @ [CHR 0x27] @ '')''"

definition generateEmbedding :: "http_post \<Rightarrow> inference_request \<Rightarrow> string + jsobject" where
  "generateEmbedding post request =
     (if \<not> truthy (ir_input request)
      then Inl ''Embedding failed: Input is required for embedding requests''
      else case post ''/api/embed'' (embed_payload request) of
        Inl message \<Rightarrow> Inl (''Embedding failed: '' @ message)
      | Inr embeddingData \<Rightarrow>
          (case js_get embeddingData ''model'' of
             None \<Rightarrow> Inl (''Embedding failed: '' @ type_error_message embeddingData ''model'')
           | Some m \<Rightarrow>
               Inr [(''id'', JStr (ir_id request)),
                    (''model'', m),
                    (''embeddings'', js_get_opt embeddingData ''embeddings''),
                    (''total_duration'', js_get_opt embeddingData ''total_duration''),
                    (''load_duration'', js_get_opt embeddingData ''load_duration''),
                    (''prompt_eval_count'', js_get_opt embeddingData ''prompt_eval_count'')]))"

section \<open>The worker adapter: streaming operations\<close>

text \<open>
  The body of a streaming HTTP response is the list of the chunks it delivers and the way
  it finishes: it ends, or the iteration throws. \<open>post_stream url payload\<close> is that body,
  or \<open>Inl message\<close> when the call itself throws.
\<close>

datatype stream_end = End_of_stream | Stream_error string

type_synonym http_post_stream = "string \<Rightarrow> jsobject \<Rightarrow> string + string list \<times> stream_end"

text \<open>
  A run of an async generator: what it yields and the warnings it logs, in order, and how
  it completes (it returns, or it throws an \<^verbatim>\<open>Error\<close> with a message).
\<close>

datatype 'a gen_event = Yield 'a | Warn string

datatype completion = Returned | Thrown string

type_synonym 'a gen_run = "'a gen_event list \<times> completion"


text \<open>
  \<^verbatim>\<open>s.split("\n")\<close>: the segments between newlines, at least one. With
  \<^verbatim>\<open>buffer = lines.pop() || ""\<close> the last segment stays in the buffer (\<open>last\<close>) and the
  others are the complete lines (\<open>butlast\<close>).
\<close>

fun split_nl :: "string \<Rightarrow> string list" where
  "split_nl [] = [[]]"
| "split_nl (c # cs) =
     (if c = CHR 0x0A then [] # split_nl cs
      else (case split_nl cs of [] \<Rightarrow> [[c]] | l # ls \<Rightarrow> (c # l) # ls))"

text \<open>
  \<^verbatim>\<open>String.prototype.trim\<close> is a parameter of the generators, as \<^verbatim>\<open>JSON.parse\<close> is:
  \<open>blank line\<close> tells that \<^verbatim>\<open>line.trim()\<close> is the empty string, which is falsy.
\<close>

type_synonym trim_test = "string \<Rightarrow> bool"

record stream_response =
  sr_id :: string
  sr_response :: jsval
  sr_done :: jsval

text \<open>
  The value yielded for a parsed line, \<open>None\<close> when reading a property of \<^verbatim>\<open>data\<close> throws
  (the \<^verbatim>\<open>catch\<close> around the \<^verbatim>\<open>yield\<close> then logs the line like a parse error).
\<close>

definition to_response :: "string \<Rightarrow> jsval \<Rightarrow> stream_response option" where
  "to_response requestId data =
     (case js_get data ''response'' of
        None \<Rightarrow> None
      | Some r \<Rightarrow>
          Some \<lparr> sr_id = requestId,
                 sr_response = js_or r (JStr []),
                 sr_done = js_or (js_get_opt data ''done'') (JBool False) \<rparr>)"

definition prepend :: "'a gen_event \<Rightarrow> 'a gen_event list \<times> bool \<Rightarrow> 'a gen_event list \<times> bool" where
  "prepend ev r = (ev # fst r, snd r)"

text \<open>
  The inner loop of \<^verbatim>\<open>generateStreamResponse\<close> over the complete lines. \<^verbatim>\<open>JSON.parse\<close> is a
  parameter (\<open>None\<close>: it throws). The flag tells that the generator has returned, on a
  record with a truthy \<^verbatim>\<open>done\<close>.
\<close>

fun process_lines ::
  "trim_test \<Rightarrow> (string \<Rightarrow> jsval option) \<Rightarrow> string \<Rightarrow> string list \<Rightarrow> stream_response gen_event list \<times> bool"
where
  "process_lines blank parse requestId [] = ([], False)"
| "process_lines blank parse requestId (line # lines) =
     (if blank line then process_lines blank parse requestId lines
      else
        (case parse line of
           None \<Rightarrow> prepend (Warn line) (process_lines blank parse requestId lines)
         | Some data \<Rightarrow>
             (case to_response requestId data of
                None \<Rightarrow> prepend (Warn line) (process_lines blank parse requestId lines)
              | Some y \<Rightarrow>
                  (if truthy (js_get_opt data ''done'') then ([Yield y], True)
                   else prepend (Yield y) (process_lines blank parse requestId lines)))))"

definition end_completion :: "string \<Rightarrow> stream_end \<Rightarrow> completion" where
  "end_completion label e =
     (case e of End_of_stream \<Rightarrow> Returned | Stream_error message \<Rightarrow> Thrown (label @ message))"

text \<open>The outer loop \<^verbatim>\<open>for await (const chunk of response.data)\<close>, with the buffer.\<close>

fun stream_loop ::
  "trim_test \<Rightarrow> (string \<Rightarrow> jsval option) \<Rightarrow> string \<Rightarrow> string \<Rightarrow> string list \<Rightarrow> stream_end \<Rightarrow>
   stream_response gen_run"
where
  "stream_loop blank parse requestId buffer [] e =
     ([], end_completion ''Streaming inference failed: '' e)"
| "stream_loop blank parse requestId buffer (chunk # chunks) e =
     (let lines = split_nl (buffer @ chunk);
          r = process_lines blank parse requestId (butlast lines)
      in if snd r then (fst r, Returned)
         else (case stream_loop blank parse requestId (last lines) chunks e of
                 (evs, c) \<Rightarrow> (fst r @ evs, c)))"

definition generateStreamResponse ::
  "http_post_stream \<Rightarrow> trim_test \<Rightarrow> (string \<Rightarrow> jsval option) \<Rightarrow> inference_request \<Rightarrow> stream_response gen_run"
where
  "generateStreamResponse post_stream blank parse request =
     (case post_stream ''/api/generate'' (generate_payload request True) of
        Inl message \<Rightarrow> ([], Thrown (''Streaming inference failed: '' @ message))
      | Inr (chunks, e) \<Rightarrow> stream_loop blank parse (ir_id request) [] chunks e)"

text \<open>
  \<^verbatim>\<open>generateChatStreamResponse\<close> yields
  \<^verbatim>\<open>{id, response: data.message?.content || "", done: data.done || false, ...data}\<close>, does not
  return on \<^verbatim>\<open>done\<close>, and parses what is left in the buffer when the stream has ended.
\<close>

definition to_chat_response :: "string \<Rightarrow> jsval \<Rightarrow> jsobject option" where
  "to_chat_response requestId data =
     (case js_get data ''message'' of
        None \<Rightarrow> None
      | Some message \<Rightarrow>
          Some (obj_assign
                  [(''id'', JStr requestId),
                   (''response'', js_or (js_get_opt message ''content'') (JStr [])),
                   (''done'', js_or (js_get_opt data ''done'') (JBool False))]
                  (spread_props data)))"

fun process_chat_lines ::
  "trim_test \<Rightarrow> (string \<Rightarrow> jsval option) \<Rightarrow> string \<Rightarrow> string list \<Rightarrow> jsobject gen_event list"
where
  "process_chat_lines blank parse requestId [] = []"
| "process_chat_lines blank parse requestId (line # lines) =
     (if blank line then process_chat_lines blank parse requestId lines
      else
        (case parse line of
           None \<Rightarrow> Warn line # process_chat_lines blank parse requestId lines
         | Some data \<Rightarrow>
             (case to_chat_response requestId data of
                None \<Rightarrow> Warn line # process_chat_lines blank parse requestId lines
              | Some y \<Rightarrow> Yield y # process_chat_lines blank parse requestId lines)))"

fun chat_stream_loop ::
  "trim_test \<Rightarrow> (string \<Rightarrow> jsval option) \<Rightarrow> string \<Rightarrow> string \<Rightarrow> string list \<Rightarrow> stream_end \<Rightarrow> jsobject gen_run"
where
  "chat_stream_loop blank parse requestId buffer [] e =
     (case e of
        End_of_stream \<Rightarrow> (process_chat_lines blank parse requestId [buffer], Returned)
      | Stream_error message \<Rightarrow> ([], Thrown (''Chat stream inference failed: '' @ message)))"
| "chat_stream_loop blank parse requestId buffer (chunk # chunks) e =
     (let lines = split_nl (buffer @ chunk)
      in (case chat_stream_loop blank parse requestId (last lines) chunks e of
            (evs, c) \<Rightarrow> (process_chat_lines blank parse requestId (butlast lines) @ evs, c)))"

definition chat_payload :: "inference_request \<Rightarrow> bool \<Rightarrow> jsobject" where
  "chat_payload request stream =
     copy_truthy request [''tools'', ''think'', ''format'', ''keep_alive'']
       [(''model'', JStr (ir_model request)),
        (''messages'', metadata_get request ''messages''),
        (''stream'', JBool stream),
        (''options'', options_or_empty request)]"

definition generateChatStreamResponse ::
  "http_post_stream \<Rightarrow> trim_test \<Rightarrow> (string \<Rightarrow> jsval option) \<Rightarrow> inference_request \<Rightarrow> jsobject gen_run"
where
  "generateChatStreamResponse post_stream blank parse request =
     (if \<not> truthy (metadata_get request ''messages'')
      then ([], Thrown ''Chat stream inference failed: Chat request must include messages in metadata'')
      else
        (case post_stream ''/api/chat'' (chat_payload request True) of
           Inl message \<Rightarrow> ([], Thrown (''Chat stream inference failed: '' @ message))
         | Inr (chunks, e) \<Rightarrow> chat_stream_loop blank parse (ir_id request) [] chunks e))"

subsection \<open>The records on the wire and the stream broker\<close>







section \<open>The gateway: POST /v1/completions\<close>

subsection \<open>Validated request\<close>

text \<open>
  \<^verbatim>\<open>validatedData\<close>: the request body after the Joi schema has accepted it and filled in
  the defaults, with the types the schema guarantees. A field that may be \<^verbatim>\<open>null\<close> is an
  option; \<^verbatim>\<open>user\<close> is optional.
\<close>

datatype prompt =
    PromptString string
  | PromptStrings "string list"
  | PromptTokens "real list"
  | PromptTokenArrays "real list list"

datatype stop_value = StopString string | StopArray "string list"

record stream_options =
  include_usage :: bool

record completions_request =
  cr_model :: string
  cr_prompt :: prompt
  cr_best_of :: int
  cr_echo :: bool
  cr_frequency_penalty :: real
  cr_logit_bias :: jsobject
  cr_logprobs :: "int option"
  cr_max_tokens :: int
  cr_n :: int
  cr_presence_penalty :: real
  cr_seed :: "int option"
  cr_stop :: "stop_value option"
  cr_stream :: bool
  cr_stream_options :: "stream_options option"
  cr_suffix :: "string option"
  cr_temperature :: real
  cr_top_p :: real
  cr_user :: "string option"

text \<open>
  The outcome of \<^verbatim>\<open>completionsRequestSchema.validate(req.body)\<close> (Joi, a library) is a
  parameter of the handler: \<open>Inl\<close> carries \<^verbatim>\<open>error.details[0]\<close>, its message and its path.
\<close>

record validation_error =
  ve_message :: string
  ve_path :: "string list"

type_synonym validate = "jsval \<Rightarrow> validation_error + completions_request"

subsection \<open>The worker registry\<close>

datatype liveness = Joining | Ready | Draining | Lost

record model_descriptor =
  md_name :: string
  md_modified_at :: "string option"

record capabilities =
  availableModels :: "model_descriptor list option"

text \<open>
  Modelled from the spec: the declaration of a worker is not under src. The handlers read
  \<^verbatim>\<open>worker.capabilities\<close>, \<^verbatim>\<open>capabilities.availableModels\<close>, \<^verbatim>\<open>model.name\<close> and
  \<^verbatim>\<open>model.modified_at\<close>; the liveness state is the one of the data model (section 3).
\<close>

record worker =
  worker_id :: string
  worker_liveness :: liveness
  worker_capabilities :: "capabilities option"

type_synonym registry = "worker list"

text \<open>
  \<^verbatim>\<open>worker.capabilities && worker.capabilities.availableModels\<close>, then the models in order.
\<close>

definition inventory :: "worker \<Rightarrow> model_descriptor list" where
  "inventory w =
     (case worker_capabilities w of
        None \<Rightarrow> []
      | Some caps \<Rightarrow> (case availableModels caps of None \<Rightarrow> [] | Some ms \<Rightarrow> ms))"

text \<open>
  Modelled from the spec: \<^verbatim>\<open>WorkerRegistry.getAllAvailableModels\<close> is not under src.
  Section 4.1: "all_available_models() -> set of model names: union of inventories over
  all ready workers".
\<close>

definition getAllAvailableModels :: "registry \<Rightarrow> string list" where
  "getAllAvailableModels reg =
     remdups (concat (map (\<lambda>w. map md_name (inventory w))
                          (filter (\<lambda>w. worker_liveness w = Ready) reg)))"

text \<open>
  Modelled from the spec: \<^verbatim>\<open>WorkerRegistry.getAllWorkers\<close> is not under src.
  Section 4.1: "list_workers() -> snapshot of worker states": every known worker, in the
  registry's enumeration order, whatever its liveness.
\<close>

definition getAllWorkers :: "registry \<Rightarrow> worker list" where
  "getAllWorkers reg = reg"

text \<open>
  \<^verbatim>\<open>validateModelExists\<close>: \<open>Some (message, status)\<close> is the error made by
  \<^verbatim>\<open>createError(message, 404)\<close> and thrown; \<open>None\<close> is the normal return.
\<close>

definition validateModelExists :: "registry \<Rightarrow> string \<Rightarrow> (string \<times> nat) option" where
  "validateModelExists reg model =
     (if model \<notin> set (getAllAvailableModels reg)
      then Some (''Model '' @ [CHR 0x27] @ model @ [CHR 0x27] @
                 '' is not available on any worker in the network'', 404)
      else None)"

subsection \<open>Parameter translation\<close>

text \<open>\<^verbatim>\<open>Array.prototype.join\<close> with a newline separator.\<close>

fun join_nl :: "string list \<Rightarrow> string" where
  "join_nl [] = []"
| "join_nl [x] = x"
| "join_nl (x # y # ys) = x @ [CHR 0x0A] @ join_nl (y # ys)"

text \<open>
  \<^verbatim>\<open>convertPromptToString\<close>. \<^verbatim>\<open>JSON.stringify\<close> is a parameter. The last line of the source,
  \<^verbatim>\<open>String(prompt)\<close>, is for a prompt that is neither a string nor an array, which the schema
  excludes.
\<close>

definition convertPromptToString :: "(jsval \<Rightarrow> string) \<Rightarrow> prompt \<Rightarrow> string" where
  "convertPromptToString stringify p =
     (case p of
        PromptString s \<Rightarrow> s
      | PromptStrings ss \<Rightarrow> (if length ss = 0 then [] else join_nl ss)
      | PromptTokens ts \<Rightarrow>
          (if length ts = 0 then [] else stringify (JArr (map JNum ts)))
      | PromptTokenArrays tss \<Rightarrow>
          (if length tss = 0 then [] else stringify (JArr (map (\<lambda>ts. JArr (map JNum ts)) tss))))"

text \<open>
  \<^verbatim>\<open>ollamaOptions\<close>: starts as the empty object; each \<^verbatim>\<open>if\<close> of the source sets one
  property.
\<close>

definition stop_array :: "stop_value \<Rightarrow> jsval" where
  "stop_array s =
     (case s of StopArray xs \<Rightarrow> JArr (map JStr xs) | StopString x \<Rightarrow> JArr [JStr x])"

definition ollamaOptions :: "completions_request \<Rightarrow> jsobject" where
  "ollamaOptions v =
     (let o0 = [];
          o1 = (if cr_temperature v \<noteq> 1 then obj_set ''temperature'' (JNum (cr_temperature v)) o0 else o0);
          o2 = (if cr_top_p v \<noteq> 1 then obj_set ''top_p'' (JNum (cr_top_p v)) o1 else o1);
          o3 = (if cr_max_tokens v \<noteq> 16 then obj_set ''num_predict'' (JNum (of_int (cr_max_tokens v))) o2 else o2);
          o4 = (case cr_seed v of None \<Rightarrow> o3 | Some s \<Rightarrow> obj_set ''seed'' (JNum (of_int s)) o3);
          o5 = (case cr_stop v of None \<Rightarrow> o4 | Some s \<Rightarrow> obj_set ''stop'' (stop_array s) o4);
          o6 = (if cr_frequency_penalty v \<noteq> 0
                then obj_set ''frequency_penalty'' (JNum (cr_frequency_penalty v)) o5 else o5);
          o7 = (if cr_presence_penalty v \<noteq> 0
                then obj_set ''presence_penalty'' (JNum (cr_presence_penalty v)) o6 else o6)
      in o7)"

text \<open>
  What the handler takes from its environment: the fresh \<^verbatim>\<open>uuidv4()\<close>, the clock, and the
  request's address and user agent.
\<close>

record env =
  env_uuid :: string
  env_now_ms :: int
  env_now_iso :: string
  env_ip :: jsval
  env_user_agent :: jsval

definition js_of_int_option :: "int option \<Rightarrow> jsval" where
  "js_of_int_option x = (case x of None \<Rightarrow> JNull | Some i \<Rightarrow> JNum (of_int i))"

definition js_of_string_option :: "jsval \<Rightarrow> string option \<Rightarrow> jsval" where
  "js_of_string_option absent x = (case x of None \<Rightarrow> absent | Some s \<Rightarrow> JStr s)"

definition inferenceRequest :: "env \<Rightarrow> completions_request \<Rightarrow> string \<Rightarrow> inference_request" where
  "inferenceRequest e v promptText =
     \<lparr> ir_id = env_uuid e,
       ir_model = cr_model v,
       ir_prompt = JStr promptText,
       ir_input = JUndefined,
       ir_stream = cr_stream v,
       ir_options = Some (ollamaOptions v),
       ir_priority = ''medium'',
       ir_timeout = 300000,
       ir_metadata = Some
         [(''openaiEndpoint'', JStr ''/v1/completions''),
          (''originalRequest'', JObj
             [(''best_of'', JNum (of_int (cr_best_of v))),
              (''echo'', JBool (cr_echo v)),
              (''logprobs'', js_of_int_option (cr_logprobs v)),
              (''n'', JNum (of_int (cr_n v))),
              (''user'', js_of_string_option JUndefined (cr_user v))]),
          (''suffix'', js_of_string_option JNull (cr_suffix v)),
          (''submittedAt'', JStr (env_now_iso e)),
          (''clientIp'', env_ip e),
          (''userAgent'', env_user_agent e)] \<rparr>"

subsection \<open>Responses\<close>

text \<open>
  \<^verbatim>\<open>InferenceResponse\<close> as the gateway reads it: each field is absent (\<open>None\<close>) or has the
  declared type. A streaming chunk is read for its \<^verbatim>\<open>response\<close> only.
\<close>

record inference_response =
  resp_response :: "string option"
  resp_prompt_eval_count :: "int option"
  resp_eval_count :: "int option"
  resp_done_reason :: "string option"

record stream_chunk =
  chunk_response :: "string option"
  chunk_done :: bool

record choice =
  choice_text :: string
  choice_index :: nat
  choice_logprobs :: "int option"
  choice_finish_reason :: "string option"

record usage =
  prompt_tokens :: int
  completion_tokens :: int
  total_tokens :: int

record text_completion =
  tc_id :: string
  tc_object :: string
  tc_created :: int
  tc_model :: string
  tc_choices :: "choice list"
  tc_usage :: "usage option"

record error_body =
  err_message :: string
  err_type :: string
  err_param :: "string option"
  err_code :: string

text \<open>\<^verbatim>\<open>x || ""\<close> on an optional string and \<^verbatim>\<open>x || 0\<close> on an optional number.\<close>

definition or_empty :: "string option \<Rightarrow> string" where
  "or_empty x = (case x of None \<Rightarrow> [] | Some s \<Rightarrow> s)"

definition or_zero :: "int option \<Rightarrow> int" where
  "or_zero x = (case x of None \<Rightarrow> 0 | Some i \<Rightarrow> i)"

text \<open>The finish reason computed inside \<^verbatim>\<open>convertToOpenAICompletionsResponse\<close>.\<close>

definition finish_reason :: "inference_response \<Rightarrow> string" where
  "finish_reason response =
     (if resp_done_reason response = Some ''stop'' then ''stop''
      else if resp_done_reason response = Some ''length'' then ''length''
      else if resp_eval_count response = Some 0 then ''length''
      else ''stop'')"

text \<open>\<^verbatim>\<open>logprobs !== null ? null : null\<close>\<close>

definition logprobs_field :: "int option \<Rightarrow> int option" where
  "logprobs_field logprobs = (if logprobs \<noteq> None then None else None)"

definition convertToOpenAICompletionsResponse ::
  "int \<Rightarrow> inference_response \<Rightarrow> string \<Rightarrow> string \<Rightarrow> string \<Rightarrow> bool \<Rightarrow> int option \<Rightarrow> text_completion"
where
  "convertToOpenAICompletionsResponse now_ms response model requestId promptText echo logprobs =
     (let text = or_empty (resp_response response);
          promptTokens = or_zero (resp_prompt_eval_count response);
          completionTokens = or_zero (resp_eval_count response);
          choice = \<lparr> choice_text = (if echo then promptText @ text else text),
                     choice_index = 0,
                     choice_logprobs = logprobs_field logprobs,
                     choice_finish_reason = Some (finish_reason response) \<rparr>
      in \<lparr> tc_id = ''cmpl-'' @ requestId,
           tc_object = ''text_completion'',
           tc_created = now_ms div 1000,
           tc_model = model,
           tc_choices = [choice],
           tc_usage = Some \<lparr> prompt_tokens = promptTokens,
                             completion_tokens = completionTokens,
                             total_tokens = promptTokens + completionTokens \<rparr> \<rparr>)"

subsection \<open>The HTTP response and the streaming callbacks\<close>

text \<open>
  The response \<^verbatim>\<open>res\<close> is passed as a state. \<^verbatim>\<open>streamOpenAIResponse(res, data)\<close> writes the
  frame \<^verbatim>\<open>data: <JSON.stringify(data)>\<close> followed by an empty line; the list \<open>res_writes\<close>
  holds the \<^verbatim>\<open>data\<close> of each frame written, in order. Nothing is written once the response
  has ended.
\<close>

datatype sse_data =
    Data_completion text_completion
  | Data_string string
  | Data_error error_body

datatype json_body =
    Body_completion text_completion
  | Body_error error_body

record http_res =
  res_status :: nat
  res_headers :: "(string \<times> string) list"
  res_writes :: "sse_data list"
  res_json :: "json_body option"
  res_ended :: bool

definition res_initial :: http_res where
  "res_initial =
     \<lparr> res_status = 200, res_headers = [], res_writes = [], res_json = None, res_ended = False \<rparr>"

definition streamOpenAIResponse :: "http_res \<Rightarrow> sse_data \<Rightarrow> http_res" where
  "streamOpenAIResponse res data =
     (if res_ended res then res else res\<lparr> res_writes := res_writes res @ [data] \<rparr>)"

definition res_end :: "http_res \<Rightarrow> http_res" where
  "res_end res = res\<lparr> res_ended := True \<rparr>"

text \<open>\<^verbatim>\<open>res.status(code).json(body)\<close> and \<^verbatim>\<open>res.json(body)\<close>\<close>

definition res_status_json :: "nat \<Rightarrow> json_body \<Rightarrow> http_res \<Rightarrow> http_res" where
  "res_status_json code body res =
     res\<lparr> res_status := code, res_json := Some body, res_ended := True \<rparr>"

definition res_send_json :: "json_body \<Rightarrow> http_res \<Rightarrow> http_res" where
  "res_send_json body res = res\<lparr> res_json := Some body, res_ended := True \<rparr>"

definition res_setHeader :: "string \<Rightarrow> string \<Rightarrow> http_res \<Rightarrow> http_res" where
  "res_setHeader k x res = res\<lparr> res_headers := res_headers res @ [(k, x)] \<rparr>"

text \<open>
  The three callbacks given to \<^verbatim>\<open>submitStreamingJob\<close>. Their shared state is \<^verbatim>\<open>totalText\<close>
  and the response.
\<close>

definition onChunk ::
  "completions_request \<Rightarrow> string \<Rightarrow> string \<Rightarrow> int \<Rightarrow> stream_chunk \<Rightarrow> string \<times> http_res \<Rightarrow> string \<times> http_res"
where
  "onChunk v promptText requestId created chunk st =
     (let deltaText = or_empty (chunk_response chunk);
          totalText = fst st @ deltaText;
          openaiChunk =
            \<lparr> tc_id = ''cmpl-'' @ requestId,
              tc_object = ''text_completion'',
              tc_created = created,
              tc_model = cr_model v,
              tc_choices =
                [\<lparr> choice_text =
                     (if cr_echo v \<and> totalText = deltaText then promptText @ deltaText
                      else deltaText),
                   choice_index = 0,
                   choice_logprobs = logprobs_field (cr_logprobs v),
                   choice_finish_reason = None \<rparr>],
              tc_usage = None \<rparr>
      in (totalText, streamOpenAIResponse (snd st) (Data_completion openaiChunk)))"

text \<open>\<^verbatim>\<open>validatedData.stream_options?.include_usage\<close>\<close>

definition wants_usage :: "completions_request \<Rightarrow> bool" where
  "wants_usage v =
     (case cr_stream_options v of None \<Rightarrow> False | Some so \<Rightarrow> include_usage so)"

definition finalChunk :: "completions_request \<Rightarrow> string \<Rightarrow> int \<Rightarrow> inference_response \<Rightarrow> text_completion" where
  "finalChunk v requestId created result =
     \<lparr> tc_id = ''cmpl-'' @ requestId,
       tc_object = ''text_completion'',
       tc_created = created,
       tc_model = cr_model v,
       tc_choices =
         [\<lparr> choice_text = [],
            choice_index = 0,
            choice_logprobs = logprobs_field (cr_logprobs v),
            choice_finish_reason = Some ''stop'' \<rparr>],
       tc_usage = Some
         \<lparr> prompt_tokens = or_zero (resp_prompt_eval_count result),
           completion_tokens = or_zero (resp_eval_count result),
           total_tokens =
             or_zero (resp_prompt_eval_count result) + or_zero (resp_eval_count result) \<rparr> \<rparr>"

definition onComplete ::
  "completions_request \<Rightarrow> string \<Rightarrow> int \<Rightarrow> inference_response \<Rightarrow> string \<times> http_res \<Rightarrow> string \<times> http_res"
where
  "onComplete v requestId created result st =
     (let final = finalChunk v requestId created result;
          res1 = (if wants_usage v
                  then streamOpenAIResponse (snd st) (Data_completion final)
                  else streamOpenAIResponse (snd st) (Data_completion (final\<lparr> tc_usage := None \<rparr>)));
          res2 = streamOpenAIResponse res1 (Data_string ''[DONE]'')
      in (fst st, res_end res2))"

definition server_error :: "string \<Rightarrow> error_body" where
  "server_error message =
     \<lparr> err_message = message, err_type = ''server_error'', err_param = None,
       err_code = ''internal_error'' \<rparr>"

definition onError :: "string \<Rightarrow> string \<times> http_res \<Rightarrow> string \<times> http_res" where
  "onError message st =
     (fst st, res_end (streamOpenAIResponse (snd st) (Data_error (server_error message))))"

subsection \<open>The job scheduler\<close>

text \<open>
  \<^verbatim>\<open>JobScheduler\<close> is not under src; what the handler observes of it is a parameter.
  \<open>submitAndWait request\<close> is the result the promise resolves with, or the message it
  rejects with. \<open>submitStreamingJob request\<close> is the sequence of callback invocations made
  while the handler awaits, and the message of the rejection if the promise rejects.
\<close>

datatype callback_event =
    OnChunk stream_chunk
  | OnComplete inference_response
  | OnError string

record scheduler =
  submitAndWait :: "inference_request \<Rightarrow> string + inference_response"
  submitStreamingJob :: "inference_request \<Rightarrow> callback_event list \<times> string option"

datatype scheduler_call =
    Call_submitStreamingJob inference_request
  | Call_submitAndWait inference_request

fun deliver ::
  "completions_request \<Rightarrow> string \<Rightarrow> string \<Rightarrow> int \<Rightarrow> string \<times> http_res \<Rightarrow> callback_event \<Rightarrow> string \<times> http_res"
where
  "deliver v promptText requestId created st (OnChunk chunk) =
     onChunk v promptText requestId created chunk st"
| "deliver v promptText requestId created st (OnComplete result) =
     onComplete v requestId created result st"
| "deliver v promptText requestId created st (OnError message) = onError message st"

subsection \<open>The handler\<close>

text \<open>
  The outcome of one call of the handler: the response, the error thrown out of the handler
  (which \<^verbatim>\<open>asyncHandler\<close> passes to the error middleware) and the calls made to the
  scheduler.
\<close>

record outcome =
  out_res :: http_res
  out_thrown :: "(string \<times> nat) option"
  out_calls :: "scheduler_call list"

fun join :: "string \<Rightarrow> string list \<Rightarrow> string" where
  "join sep [] = []"
| "join sep [x] = x"
| "join sep (x # y # ys) = x @ sep @ join sep (y # ys)"

definition invalid_request :: "validation_error \<Rightarrow> error_body" where
  "invalid_request error =
     \<lparr> err_message = ''Invalid request: '' @ ve_message error,
       err_type = ''invalid_request_error'',
       err_param = (if join ''.'' (ve_path error) = [] then None
                    else Some (join ''.'' (ve_path error))),
       err_code = ''invalid_parameter'' \<rparr>"

definition stream_headers :: "http_res \<Rightarrow> http_res" where
  "stream_headers res =
     res_setHeader ''Access-Control-Allow-Origin'' ''*''
       (res_setHeader ''Connection'' ''keep-alive''
         (res_setHeader ''Cache-Control'' ''no-cache''
           (res_setHeader ''Content-Type'' ''text/event-stream'' res)))"

text \<open>
  \<open>env_now_ms\<close> is the clock when the job is submitted; the non-streaming conversion reads
  the clock again when the result has arrived (\<open>later_ms\<close>).
\<close>

definition post_v1_completions ::
  "env \<Rightarrow> int \<Rightarrow> (jsval \<Rightarrow> string) \<Rightarrow> validate \<Rightarrow> registry \<Rightarrow> scheduler \<Rightarrow> jsval \<Rightarrow> outcome"
where
  "post_v1_completions e later_ms stringify validate reg sched body =
     (case validate body of
        Inl error \<Rightarrow>
          \<lparr> out_res = res_status_json 400 (Body_error (invalid_request error)) res_initial,
            out_thrown = None, out_calls = [] \<rparr>
      | Inr v \<Rightarrow>
          (case validateModelExists reg (cr_model v) of
             Some err \<Rightarrow> \<lparr> out_res = res_initial, out_thrown = Some err, out_calls = [] \<rparr>
           | None \<Rightarrow>
               (let promptText = convertPromptToString stringify (cr_prompt v);
                    request = inferenceRequest e v promptText
                in if cr_stream v then
                     (let res1 = stream_headers res_initial;
                          created = env_now_ms e div 1000;
                          run = submitStreamingJob sched request;
                          st = foldl (deliver v promptText (ir_id request) created) ([], res1) (fst run)
                      in \<lparr> out_res =
                             (case snd run of
                                None \<Rightarrow> snd st
                              | Some message \<Rightarrow>
                                  res_status_json 500 (Body_error (server_error message)) (snd st)),
                           out_thrown = None,
                           out_calls = [Call_submitStreamingJob request] \<rparr>)
                   else
                     (case submitAndWait sched request of
                        Inr result \<Rightarrow>
                          \<lparr> out_res = res_send_json
                               (Body_completion
                                  (convertToOpenAICompletionsResponse later_ms result (cr_model v)
                                     (ir_id request) promptText (cr_echo v) (cr_logprobs v)))
                               res_initial,
                            out_thrown = None,
                            out_calls = [Call_submitAndWait request] \<rparr>
                      | Inl message \<Rightarrow>
                          \<lparr> out_res = res_status_json 500 (Body_error (server_error message)) res_initial,
                            out_thrown = None,
                            out_calls = [Call_submitAndWait request] \<rparr>))))"

text \<open>
  Modelled from the spec: \<^verbatim>\<open>middleware/errorHandler\<close> is not under src. Section 6: "HTTP 404
  with a 404-style error when the requested model is unavailable fleet-wide": the status
  given to \<^verbatim>\<open>createError\<close> is the HTTP status of the reply.
\<close>

definition http_status :: "outcome \<Rightarrow> nat" where
  "http_status out =
     (case out_thrown out of None \<Rightarrow> res_status (out_res out) | Some err \<Rightarrow> snd err)"

section \<open>The gateway: GET /v1/models\<close>

text \<open>
  An entry of the reply. \<open>me_created\<close> is \<open>None\<close> when the computed number is NaN.
\<close>

record model_entry =
  me_id :: string
  me_object :: string
  me_created :: "int option"
  me_owned_by :: string
  me_permission :: "jsval list"
  me_root :: string
  me_parent :: "string option"

text \<open>
  \<^verbatim>\<open>Math.floor(new Date(model.modified_at || new Date()).getTime() / 1000)\<close>. The parsing
  of a date string is a parameter: \<open>parse_date s\<close> is the time in milliseconds, \<open>None\<close>
  for an invalid date (NaN). \<open>now_ms\<close> is the clock, read when \<^verbatim>\<open>modified_at\<close> is absent
  or empty. Division on \<open>int\<close> rounds down, as \<^verbatim>\<open>Math.floor\<close> does.
\<close>

definition created_of :: "(string \<Rightarrow> int option) \<Rightarrow> int \<Rightarrow> model_descriptor \<Rightarrow> int option" where
  "created_of parse_date now_ms model =
     (case md_modified_at model of
        None \<Rightarrow> Some (now_ms div 1000)
      | Some s \<Rightarrow> (if s = [] then Some (now_ms div 1000)
                  else map_option (\<lambda>t. t div 1000) (parse_date s)))"

definition model_entry_of :: "(string \<Rightarrow> int option) \<Rightarrow> int \<Rightarrow> model_descriptor \<Rightarrow> model_entry" where
  "model_entry_of parse_date now_ms model =
     \<lparr> me_id = md_name model,
       me_object = ''model'',
       me_created = created_of parse_date now_ms model,
       me_owned_by = ''gridllm'',
       me_permission = [],
       me_root = md_name model,
       me_parent = None \<rparr>"

text \<open>
  \<^verbatim>\<open>modelsMap\<close>, a \<^verbatim>\<open>Map\<close>, is the list of its entries in insertion order. The inner loop
  adds an entry for a model only if the map has none under its name.
\<close>

fun add_models ::
  "(string \<Rightarrow> int option) \<Rightarrow> int \<Rightarrow> model_descriptor list \<Rightarrow> (string \<times> model_entry) list \<Rightarrow>
   (string \<times> model_entry) list"
where
  "add_models parse_date now_ms [] modelsMap = modelsMap"
| "add_models parse_date now_ms (model # models) modelsMap =
     add_models parse_date now_ms models
       (if map_of modelsMap (md_name model) = None
        then modelsMap @ [(md_name model, model_entry_of parse_date now_ms model)]
        else modelsMap)"

definition aggregate_models ::
  "(string \<Rightarrow> int option) \<Rightarrow> int \<Rightarrow> worker list \<Rightarrow> (string \<times> model_entry) list"
where
  "aggregate_models parse_date now_ms allWorkers =
     foldl (\<lambda>modelsMap worker. add_models parse_date now_ms (inventory worker) modelsMap)
       [] allWorkers"

text \<open>
  \<^verbatim>\<open>Array.prototype.sort\<close> with a comparison function is stable; insertion from the right
  end, before the first element that does not precede, is a stable sort.
\<close>

fun insert_sorted :: "('a \<Rightarrow> 'a \<Rightarrow> int) \<Rightarrow> 'a \<Rightarrow> 'a list \<Rightarrow> 'a list" where
  "insert_sorted cmp x [] = [x]"
| "insert_sorted cmp x (y # ys) =
     (if cmp x y \<le> 0 then x # y # ys else y # insert_sorted cmp x ys)"

definition array_sort :: "('a \<Rightarrow> 'a \<Rightarrow> int) \<Rightarrow> 'a list \<Rightarrow> 'a list" where
  "array_sort cmp xs = foldr (insert_sorted cmp) xs []"

text \<open>
  The handler's reply \<^verbatim>\<open>{object: "list", data: models}\<close>. \<^verbatim>\<open>String.prototype.localeCompare\<close>
  is a parameter.
\<close>

record models_reply =
  mr_object :: string
  mr_data :: "model_entry list"

definition get_v1_models ::
  "(string \<Rightarrow> int option) \<Rightarrow> int \<Rightarrow> (string \<Rightarrow> string \<Rightarrow> int) \<Rightarrow> registry \<Rightarrow> models_reply"
where
  "get_v1_models parse_date now_ms localeCompare reg =
     (let allWorkers = getAllWorkers reg;
          modelsMap = aggregate_models parse_date now_ms allWorkers;
          models = array_sort (\<lambda>a b. localeCompare (me_id a) (me_id b)) (map snd modelsMap)
      in \<lparr> mr_object = ''list'', mr_data = models \<rparr>)"

text \<open>
  What the properties of the reply assume of the comparison: it is a total preorder
  (\<open>consistent_comparison\<close>). A comparison that also tells all different strings apart
  is linear (\<open>linear_comparison\<close>); \<^verbatim>\<open>localeCompare\<close> itself is not, it returns 0 for
  some pairs of different strings.
\<close>

definition consistent_comparison :: "(string \<Rightarrow> string \<Rightarrow> int) \<Rightarrow> bool" where
  "consistent_comparison cmp =
     ((\<forall>a b. cmp a b \<le> 0 \<or> cmp b a \<le> 0) \<and>
      (\<forall>a b c. cmp a b \<le> 0 \<and> cmp b c \<le> 0 \<longrightarrow> cmp a c \<le> 0))"

definition linear_comparison :: "(string \<Rightarrow> string \<Rightarrow> int) \<Rightarrow> bool" where
  "linear_comparison cmp =
     (consistent_comparison cmp \<and> (\<forall>a b. cmp a b \<le> 0 \<and> cmp b a \<le> 0 \<longrightarrow> a = b))"


text \<open>All the descriptors advertised, in enumeration order.\<close>

definition advertised :: "worker list \<Rightarrow> model_descriptor list" where
  "advertised workers = concat (map inventory workers)"


section \<open>Observations and example inputs\<close>

text \<open>The texts and finish reasons carried by the frames written and by a JSON body.\<close>

fun frame_texts :: "sse_data list \<Rightarrow> string list" where
  "frame_texts [] = []"
| "frame_texts (Data_completion c # fs) = map choice_text (tc_choices c) @ frame_texts fs"
| "frame_texts (f # fs) = frame_texts fs"

fun frame_finish_reasons :: "sse_data list \<Rightarrow> string option list" where
  "frame_finish_reasons [] = []"
| "frame_finish_reasons (Data_completion c # fs) =
     map choice_finish_reason (tc_choices c) @ frame_finish_reasons fs"
| "frame_finish_reasons (f # fs) = frame_finish_reasons fs"

fun body_finish_reasons :: "json_body option \<Rightarrow> string option list" where
  "body_finish_reasons (Some (Body_completion c)) = map choice_finish_reason (tc_choices c)"
| "body_finish_reasons b = []"

text \<open>
  A streaming request with \<^verbatim>\<open>echo=true\<close>, prompt \<^verbatim>\<open>Hi\<close> and \<^verbatim>\<open>include_usage\<close>, for the model
  \<^verbatim>\<open>m1\<close> that the single ready worker \<^verbatim>\<open>W1\<close> advertises (scenario 2 of section 8).
\<close>

definition example_request :: completions_request where
  "example_request =
     \<lparr> cr_model = ''m1'', cr_prompt = PromptString ''Hi'', cr_best_of = 1, cr_echo = True,
       cr_frequency_penalty = 0, cr_logit_bias = [], cr_logprobs = None, cr_max_tokens = 16,
       cr_n = 1, cr_presence_penalty = 0, cr_seed = None, cr_stop = None, cr_stream = True,
       cr_stream_options = Some \<lparr> include_usage = True \<rparr>, cr_suffix = None,
       cr_temperature = 1, cr_top_p = 1, cr_user = None \<rparr>"

definition example_request_custom :: completions_request where
  "example_request_custom =
     example_request\<lparr> cr_temperature := 0.7, cr_max_tokens := 100, cr_seed := Some 42,
       cr_stop := Some (StopString ''END''), cr_presence_penalty := 0.5 \<rparr>"



definition example_env :: env where
  "example_env =
     \<lparr> env_uuid = ''job-1'', env_now_ms = 1700000000123,
       env_now_iso = ''2023-11-14T22:13:20.123Z'', env_ip = JStr ''10.0.0.7'',
       env_user_agent = JUndefined \<rparr>"

definition example_registry :: registry where
  "example_registry =
     [\<lparr> worker_id = ''W1'', worker_liveness = Ready,
        worker_capabilities = Some \<lparr> availableModels = Some
          [\<lparr> md_name = ''m1'', md_modified_at = Some ''2024-01-01T00:00:00Z'' \<rparr>] \<rparr> \<rparr>]"

text \<open>A validation that accepts with the given data, and a scheduler that plays a script.\<close>

definition accept :: "completions_request \<Rightarrow> validate" where
  "accept v body = Inr v"

definition scripted :: "callback_event list \<Rightarrow> inference_response \<Rightarrow> scheduler" where
  "scripted events result =
     \<lparr> submitAndWait = (\<lambda>request. Inr result),
       submitStreamingJob = (\<lambda>request. (events, None)) \<rparr>"

definition delta :: "string \<Rightarrow> callback_event" where
  "delta s = OnChunk \<lparr> chunk_response = Some s, chunk_done = False \<rparr>"

definition example_result :: inference_response where
  "example_result =
     \<lparr> resp_response = None, resp_prompt_eval_count = Some 1, resp_eval_count = Some 2,
       resp_done_reason = None \<rparr>"

definition length_result :: inference_response where
  "length_result =
     \<lparr> resp_response = Some ''He'', resp_prompt_eval_count = Some 1, resp_eval_count = Some 16,
       resp_done_reason = Some ''length'' \<rparr>"

text \<open>
  A worker whose response body carries an \<^verbatim>\<open>id\<close> of its own, and a request for the adapter.
\<close>

definition example_post :: http_post where
  "example_post url payload =
     Inr (JObj [(''id'', JStr ''worker-side-id''), (''model'', JStr ''m1''),
                (''response'', JStr ''Hello'')])"

definition example_adapter_request :: inference_request where
  "example_adapter_request =
     \<lparr> ir_id = ''job-1'', ir_model = ''m1'', ir_prompt = JStr ''Hi'', ir_input = JStr ''Hi'',
       ir_stream = False, ir_options = None, ir_priority = ''medium'', ir_timeout = 300000,
       ir_metadata = None \<rparr>"

text \<open>
  Example inputs for \<^verbatim>\<open>/v1/models\<close>: comparison by code units, a date parser that knows two
  dates, and workers advertising the model \<^verbatim>\<open>m1\<close> with different modification times.
\<close>

definition code_unit_compare :: "string \<Rightarrow> string \<Rightarrow> int" where
  "code_unit_compare a b = (if a < b then - 1 else if a = b then 0 else 1)"

text \<open>A consistent comparison with ties: strings of the same length compare equal.\<close>

definition compare_length :: "string \<Rightarrow> string \<Rightarrow> int" where
  "compare_length a b = int (length a) - int (length b)"

definition example_parse_date :: "string \<Rightarrow> int option" where
  "example_parse_date s =
     (if s = ''2024-01-01T00:00:00Z'' then Some 1704067200000
      else if s = ''2025-01-01T00:00:00Z'' then Some 1735689600000
      else None)"

definition worker_with :: "string \<Rightarrow> liveness \<Rightarrow> model_descriptor list \<Rightarrow> worker" where
  "worker_with wid l models =
     \<lparr> worker_id = wid, worker_liveness = l,
       worker_capabilities = Some \<lparr> availableModels = Some models \<rparr> \<rparr>"

definition m1_old :: model_descriptor where
  "m1_old = \<lparr> md_name = ''m1'', md_modified_at = Some ''2024-01-01T00:00:00Z'' \<rparr>"

definition m1_new :: model_descriptor where
  "m1_new = \<lparr> md_name = ''m1'', md_modified_at = Some ''2025-01-01T00:00:00Z'' \<rparr>"

definition m0 :: model_descriptor where
  "m0 = \<lparr> md_name = ''m0'', md_modified_at = None \<rparr>"

text \<open>
  Example inputs for the streaming adapter: a parser that knows three records, and
  streams of chunks.
\<close>

definition line_He :: string where
  "line_He = ''{\"response\":\"He\",\"done\":false}''"

definition line_llo :: string where
  "line_llo = ''{\"response\":\"llo\",\"done\":false}''"

definition line_done :: string where
  "line_done = ''{\"response\":\"\",\"done\":true}''"

definition example_parse :: "string \<Rightarrow> jsval option" where
  "example_parse s =
     (if s = line_He then Some (JObj [(''response'', JStr ''He''), (''done'', JBool False)])
      else if s = line_llo then Some (JObj [(''response'', JStr ''llo''), (''done'', JBool False)])
      else if s = line_done then Some (JObj [(''response'', JStr []), (''done'', JBool True)])
      else None)"

text \<open>
  A trim test as an example input: a line of tabs, line feeds, vertical tabs, form feeds,
  carriage returns and spaces trims to the empty string.
\<close>

definition ascii_blank :: trim_test where
  "ascii_blank line =
     list_all (\<lambda>c. c \<in> {CHR 0x09, CHR 0x0A, CHR 0x0B, CHR 0x0C, CHR 0x0D, CHR 0x20}) line"

definition streaming :: "string list \<Rightarrow> stream_end \<Rightarrow> http_post_stream" where
  "streaming chunks e url payload = Inr (chunks, e)"

definition example_chat_request :: inference_request where
  "example_chat_request =
     example_adapter_request\<lparr> ir_metadata := Some
       [(''messages'', JArr [JObj [(''role'', JStr ''user''), (''content'', JStr ''Hi'')]])] \<rparr>"


definition garbled_chunks :: "string list" where
  "garbled_chunks = [line_He @ [CHR 0x0A] @ ''garbage'' @ [CHR 0x0A] @ take 9 line_llo]"

section \<open>Properties\<close>

subsection \<open>The non-streaming adapter\<close>

lemma obj_get_obj_set_same: "obj_get (obj_set k v kvs) k = v"
  by (simp add: obj_get_def obj_set_def update_conv')

text \<open>
  C10. Every object returned by the adapter's non-streaming generate and embedding
  operations has its \<^verbatim>\<open>id\<close> equal to the id of the originating request, whatever the
  worker's response body holds (also an \<^verbatim>\<open>id\<close> of its own); and whenever the HTTP call
  returns a body that is not \<^verbatim>\<open>null\<close>, both operations return such an object.
\<close>

theorem adapter_result_id_is_request_id:
  "(generateResponse post request = Inr result \<longrightarrow> obj_get result ''id'' = JStr (ir_id request)) \<and>
   (generateEmbedding post request = Inr result \<longrightarrow> obj_get result ''id'' = JStr (ir_id request)) \<and>
   (post ''/api/generate'' (generate_payload request False) = Inr data \<longrightarrow>
      (\<exists>r. generateResponse post request = Inr r)) \<and>
   (truthy (ir_input request) \<and> post ''/api/embed'' (embed_payload request) = Inr data \<and>
      data \<noteq> JNull \<and> data \<noteq> JUndefined \<longrightarrow>
      (\<exists>r. generateEmbedding post request = Inr r))"
proof (intro conjI impI)
  assume "generateResponse post request = Inr result"
  then show "obj_get result ''id'' = JStr (ir_id request)"
    by (auto simp: generateResponse_def obj_get_obj_set_same split: sum.splits)
next
  assume "generateEmbedding post request = Inr result"
  then show "obj_get result ''id'' = JStr (ir_id request)"
    by (auto simp: generateEmbedding_def obj_get_def split: sum.splits option.splits if_splits)
next
  assume "post ''/api/generate'' (generate_payload request False) = Inr data"
  then show "\<exists>r. generateResponse post request = Inr r"
    by (simp add: generateResponse_def)
next
  assume a: "truthy (ir_input request) \<and> post ''/api/embed'' (embed_payload request) = Inr data \<and>
      data \<noteq> JNull \<and> data \<noteq> JUndefined"
  then have "js_get data ''model'' \<noteq> None"
    by (cases data) auto
  with a show "\<exists>r. generateEmbedding post request = Inr r"
    by (auto simp: generateEmbedding_def)
qed

theorem adapter_result_id_is_request_id_witness:
  "generateResponse example_post example_adapter_request =
     Inr [(''id'', JStr ''job-1''), (''model'', JStr ''m1''), (''response'', JStr ''Hello'')] \<and>
   generateEmbedding example_post example_adapter_request =
     Inr [(''id'', JStr ''job-1''), (''model'', JStr ''m1''), (''embeddings'', JUndefined),
          (''total_duration'', JUndefined), (''load_duration'', JUndefined),
          (''prompt_eval_count'', JUndefined)] \<and>
   truthy (ir_input example_adapter_request) \<and>
   obj_get [(''id'', JStr ''job-1''), (''model'', JStr ''m1''), (''response'', JStr ''Hello'')] ''id'' =
     JStr ''job-1'' \<and>
   obj_get [(''id'', JStr ''job-1''), (''model'', JStr ''m1''), (''embeddings'', JUndefined),
          (''total_duration'', JUndefined), (''load_duration'', JUndefined),
          (''prompt_eval_count'', JUndefined)] ''id'' = JStr ''job-1''"
proof -
  have g: "generateResponse example_post example_adapter_request =
     Inr [(''id'', JStr ''job-1''), (''model'', JStr ''m1''), (''response'', JStr ''Hello'')]"
    by (simp add: generateResponse_def example_post_def example_adapter_request_def obj_assign_def
        obj_set_def)
  have m: "generateEmbedding example_post example_adapter_request =
     Inr [(''id'', JStr ''job-1''), (''model'', JStr ''m1''), (''embeddings'', JUndefined),
          (''total_duration'', JUndefined), (''load_duration'', JUndefined),
          (''prompt_eval_count'', JUndefined)]"
    by (simp add: generateEmbedding_def example_post_def example_adapter_request_def
        js_get_opt_def obj_get_def)
  have t: "truthy (ir_input example_adapter_request)"
    by (simp add: example_adapter_request_def)
  show ?thesis
    using g m t
      adapter_result_id_is_request_id [of example_post example_adapter_request
        "[(''id'', JStr ''job-1''), (''model'', JStr ''m1''), (''response'', JStr ''Hello'')]"]
      adapter_result_id_is_request_id [of example_post example_adapter_request
        "[(''id'', JStr ''job-1''), (''model'', JStr ''m1''), (''embeddings'', JUndefined),
          (''total_duration'', JUndefined), (''load_duration'', JUndefined),
          (''prompt_eval_count'', JUndefined)]"]
    by (simp add: example_adapter_request_def)
qed

subsection \<open>The completions handler\<close>

lemmas run_defs = post_v1_completions_def example_request_def example_env_def example_registry_def
  accept_def scripted_def delta_def example_result_def example_request_custom_def length_result_def
 finish_reason_def convertToOpenAICompletionsResponse_def res_send_json_def res_status_json_def validateModelExists_def getAllAvailableModels_def
  inventory_def convertPromptToString_def inferenceRequest_def stream_headers_def res_setHeader_def
  res_initial_def onChunk_def onComplete_def onError_def finalChunk_def streamOpenAIResponse_def
  res_end_def or_empty_def or_zero_def logprobs_field_def wants_usage_def Let_def

lemma map_of_obj_set:
  "map_of (obj_set k v kvs) k' = (if k' = k then Some v else map_of kvs k')"
  by (simp add: obj_set_def update_conv')

lemma map_of_if_obj_set:
  "map_of (if c then obj_set k x kvs else kvs) k' =
     (if k' = k \<and> c then Some x else map_of kvs k')"
  by (simp add: map_of_obj_set)

lemma map_of_case_obj_set:
  "map_of (case y of None \<Rightarrow> kvs | Some s \<Rightarrow> obj_set k (f s) kvs) k' =
     (if k' = k \<and> y \<noteq> None then map_option f y else map_of kvs k')"
  by (simp add: map_of_obj_set split: option.splits)

lemma ollamaOptions_lookup:
  "map_of (ollamaOptions v) k =
     (if k = ''presence_penalty'' \<and> cr_presence_penalty v \<noteq> 0
        then Some (JNum (cr_presence_penalty v))
      else if k = ''frequency_penalty'' \<and> cr_frequency_penalty v \<noteq> 0
        then Some (JNum (cr_frequency_penalty v))
      else if k = ''stop'' \<and> cr_stop v \<noteq> None then map_option stop_array (cr_stop v)
      else if k = ''seed'' \<and> cr_seed v \<noteq> None
        then map_option (\<lambda>s. JNum (of_int s)) (cr_seed v)
      else if k = ''num_predict'' \<and> cr_max_tokens v \<noteq> 16
        then Some (JNum (of_int (cr_max_tokens v)))
      else if k = ''top_p'' \<and> cr_top_p v \<noteq> 1 then Some (JNum (cr_top_p v))
      else if k = ''temperature'' \<and> cr_temperature v \<noteq> 1 then Some (JNum (cr_temperature v))
      else None)"
proof -
  define o1 where "o1 = (if cr_temperature v \<noteq> 1
    then obj_set ''temperature'' (JNum (cr_temperature v)) [] else [])"
  define o2 where "o2 = (if cr_top_p v \<noteq> 1 then obj_set ''top_p'' (JNum (cr_top_p v)) o1 else o1)"
  define o3 where "o3 = (if cr_max_tokens v \<noteq> 16
    then obj_set ''num_predict'' (JNum (of_int (cr_max_tokens v))) o2 else o2)"
  define o4 where "o4 = (case cr_seed v of None \<Rightarrow> o3
    | Some s \<Rightarrow> obj_set ''seed'' (JNum (of_int s)) o3)"
  define o5 where "o5 = (case cr_stop v of None \<Rightarrow> o4
    | Some s \<Rightarrow> obj_set ''stop'' (stop_array s) o4)"
  define o6 where "o6 = (if cr_frequency_penalty v \<noteq> 0
    then obj_set ''frequency_penalty'' (JNum (cr_frequency_penalty v)) o5 else o5)"
  define o7 where "o7 = (if cr_presence_penalty v \<noteq> 0
    then obj_set ''presence_penalty'' (JNum (cr_presence_penalty v)) o6 else o6)"
  have eq: "ollamaOptions v = o7"
    by (simp only: ollamaOptions_def Let_def o1_def o2_def o3_def o4_def o5_def o6_def o7_def)
  have l1: "map_of o1 k =
      (if k = ''temperature'' \<and> cr_temperature v \<noteq> 1 then Some (JNum (cr_temperature v))
       else None)"
    unfolding o1_def map_of_if_obj_set by simp
  have l2: "map_of o2 k =
      (if k = ''top_p'' \<and> cr_top_p v \<noteq> 1 then Some (JNum (cr_top_p v)) else map_of o1 k)"
    unfolding o2_def by (rule map_of_if_obj_set)
  have l3: "map_of o3 k =
      (if k = ''num_predict'' \<and> cr_max_tokens v \<noteq> 16
       then Some (JNum (of_int (cr_max_tokens v))) else map_of o2 k)"
    unfolding o3_def by (rule map_of_if_obj_set)
  have l4: "map_of o4 k =
      (if k = ''seed'' \<and> cr_seed v \<noteq> None
       then map_option (\<lambda>s. JNum (of_int s)) (cr_seed v) else map_of o3 k)"
    unfolding o4_def by (rule map_of_case_obj_set)
  have l5: "map_of o5 k =
      (if k = ''stop'' \<and> cr_stop v \<noteq> None then map_option stop_array (cr_stop v)
       else map_of o4 k)"
    unfolding o5_def by (rule map_of_case_obj_set)
  have l6: "map_of o6 k =
      (if k = ''frequency_penalty'' \<and> cr_frequency_penalty v \<noteq> 0
       then Some (JNum (cr_frequency_penalty v)) else map_of o5 k)"
    unfolding o6_def by (rule map_of_if_obj_set)
  have l7: "map_of o7 k =
      (if k = ''presence_penalty'' \<and> cr_presence_penalty v \<noteq> 0
       then Some (JNum (cr_presence_penalty v)) else map_of o6 k)"
    unfolding o7_def by (rule map_of_if_obj_set)
  show ?thesis
    by (simp only: eq l7 l6 l5 l4 l3 l2 l1)
qed

lemma ollamaOptions_temperature:
  "map_of (ollamaOptions v) ''temperature'' =
     (if cr_temperature v \<noteq> 1 then Some (JNum (cr_temperature v)) else None)"
  by (simp add: ollamaOptions_lookup)

lemma ollamaOptions_top_p:
  "map_of (ollamaOptions v) ''top_p'' =
     (if cr_top_p v \<noteq> 1 then Some (JNum (cr_top_p v)) else None)"
  by (simp add: ollamaOptions_lookup)

lemma ollamaOptions_num_predict:
  "map_of (ollamaOptions v) ''num_predict'' =
     (if cr_max_tokens v \<noteq> 16 then Some (JNum (of_int (cr_max_tokens v))) else None)"
  by (simp add: ollamaOptions_lookup)

lemma ollamaOptions_seed:
  "map_of (ollamaOptions v) ''seed'' =
     (case cr_seed v of None \<Rightarrow> None | Some s \<Rightarrow> Some (JNum (of_int s)))"
  by (simp add: ollamaOptions_lookup split: option.splits)

lemma ollamaOptions_stop:
  "map_of (ollamaOptions v) ''stop'' =
     (case cr_stop v of
        None \<Rightarrow> None
      | Some (StopString x) \<Rightarrow> Some (JArr [JStr x])
      | Some (StopArray xs) \<Rightarrow> Some (JArr (map JStr xs)))"
  by (simp add: ollamaOptions_lookup stop_array_def split: option.splits stop_value.splits)

lemma ollamaOptions_frequency_penalty:
  "map_of (ollamaOptions v) ''frequency_penalty'' =
     (if cr_frequency_penalty v \<noteq> 0 then Some (JNum (cr_frequency_penalty v)) else None)"
  by (simp add: ollamaOptions_lookup)

lemma ollamaOptions_presence_penalty:
  "map_of (ollamaOptions v) ''presence_penalty'' =
     (if cr_presence_penalty v \<noteq> 0 then Some (JNum (cr_presence_penalty v)) else None)"
  by (simp add: ollamaOptions_lookup)

lemma ollamaOptions_keys:
  "fst ` set (ollamaOptions v) \<subseteq>
     {''temperature'', ''top_p'', ''num_predict'', ''seed'', ''stop'', ''frequency_penalty'',
      ''presence_penalty''}"
proof
  fix k assume "k \<in> fst ` set (ollamaOptions v)"
  then have "map_of (ollamaOptions v) k \<noteq> None"
    by (simp add: map_of_eq_None_iff)
  then show "k \<in> {''temperature'', ''top_p'', ''num_predict'', ''seed'', ''stop'',
      ''frequency_penalty'', ''presence_penalty''}"
    unfolding ollamaOptions_lookup by (auto split: if_splits)
qed

lemma obj_get_obj_set_other: "k' \<noteq> k \<Longrightarrow> obj_get (obj_set k v kvs) k' = obj_get kvs k'"
  by (simp add: obj_get_def map_of_obj_set)

lemma obj_get_copy_truthy:
  "k \<notin> set ks \<Longrightarrow> obj_get (copy_truthy request ks payload) k = obj_get payload k"
  by (induction ks arbitrary: payload) (auto simp: obj_get_obj_set_other)

lemma generate_payload_options:
  "obj_get (generate_payload request stream) ''options'' = options_or_empty request"
  unfolding generate_payload_def
  by (subst obj_get_copy_truthy) (simp_all add: obj_get_def)

lemma handler_submits:
  assumes "validate body = Inr v" and "cr_model v \<in> set (getAllAvailableModels reg)"
  shows "out_calls (post_v1_completions e later stringify validate reg sched body) =
      [(if cr_stream v then Call_submitStreamingJob else Call_submitAndWait)
         (inferenceRequest e v (convertPromptToString stringify (cr_prompt v)))]"
  using assms
  by (simp add: post_v1_completions_def validateModelExists_def Let_def split: sum.splits)

text \<open>
  C6. For every request that passes validation and names an available model, the request
  submitted to the scheduler carries an options object (the one the adapter puts in the
  worker payload) that holds \<^verbatim>\<open>temperature\<close> and \<^verbatim>\<open>top_p\<close> iff they differ from 1,
  \<^verbatim>\<open>num_predict\<close> equal to \<^verbatim>\<open>max_tokens\<close> iff that differs from 16, \<^verbatim>\<open>seed\<close> iff it is not null,
  \<^verbatim>\<open>stop\<close> as an array iff it is not null, \<^verbatim>\<open>frequency_penalty\<close> and \<^verbatim>\<open>presence_penalty\<close> iff
  they are not zero, and no other key.
\<close>

theorem options_forwarded:
  assumes "validate body = Inr v" and "cr_model v \<in> set (getAllAvailableModels reg)"
  shows "\<exists>request opts.
      out_calls (post_v1_completions e later stringify validate reg sched body) =
        [(if cr_stream v then Call_submitStreamingJob else Call_submitAndWait) request] \<and>
      ir_options request = Some opts \<and>
      obj_get (generate_payload request (cr_stream v)) ''options'' = JObj opts \<and>
      map_of opts ''temperature'' =
        (if cr_temperature v \<noteq> 1 then Some (JNum (cr_temperature v)) else None) \<and>
      map_of opts ''top_p'' = (if cr_top_p v \<noteq> 1 then Some (JNum (cr_top_p v)) else None) \<and>
      map_of opts ''num_predict'' =
        (if cr_max_tokens v \<noteq> 16 then Some (JNum (of_int (cr_max_tokens v))) else None) \<and>
      map_of opts ''seed'' =
        (case cr_seed v of None \<Rightarrow> None | Some s \<Rightarrow> Some (JNum (of_int s))) \<and>
      map_of opts ''stop'' =
        (case cr_stop v of
           None \<Rightarrow> None
         | Some (StopString x) \<Rightarrow> Some (JArr [JStr x])
         | Some (StopArray xs) \<Rightarrow> Some (JArr (map JStr xs))) \<and>
      map_of opts ''frequency_penalty'' =
        (if cr_frequency_penalty v \<noteq> 0 then Some (JNum (cr_frequency_penalty v)) else None) \<and>
      map_of opts ''presence_penalty'' =
        (if cr_presence_penalty v \<noteq> 0 then Some (JNum (cr_presence_penalty v)) else None) \<and>
      fst ` set opts \<subseteq>
        {''temperature'', ''top_p'', ''num_predict'', ''seed'', ''stop'', ''frequency_penalty'',
         ''presence_penalty''}"
proof -
  let ?request = "inferenceRequest e v (convertPromptToString stringify (cr_prompt v))"
  have opts: "ir_options ?request = Some (ollamaOptions v)"
    by (simp add: inferenceRequest_def)
  have payload: "obj_get (generate_payload ?request (cr_stream v)) ''options'' = JObj (ollamaOptions v)"
    by (simp add: generate_payload_options options_or_empty_def opts)
  have calls: "out_calls (post_v1_completions e later stringify validate reg sched body) =
      [(if cr_stream v then Call_submitStreamingJob else Call_submitAndWait) ?request]"
    using assms by (rule handler_submits)
  show ?thesis
    apply (rule exI [of _ ?request])
    apply (rule exI [of _ "ollamaOptions v"])
    apply (intro conjI)
              apply (rule calls)
             apply (rule opts)
            apply (rule payload)
           apply (rule ollamaOptions_temperature)
          apply (rule ollamaOptions_top_p)
         apply (rule ollamaOptions_num_predict)
        apply (rule ollamaOptions_seed)
       apply (rule ollamaOptions_stop)
      apply (rule ollamaOptions_frequency_penalty)
     apply (rule ollamaOptions_presence_penalty)
    apply (rule ollamaOptions_keys)
    done
qed

theorem options_forwarded_witness:
  "accept example_request_custom JNull = Inr example_request_custom \<and>
   cr_model example_request_custom \<in> set (getAllAvailableModels example_registry) \<and>
   (\<exists>request opts.
      out_calls (post_v1_completions example_env 0 (\<lambda>v. []) (accept example_request_custom)
                   example_registry (scripted [] example_result) JNull) =
        [Call_submitStreamingJob request] \<and>
      ir_options request = Some opts \<and>
      map_of opts ''temperature'' = Some (JNum 0.7) \<and>
      map_of opts ''top_p'' = None \<and>
      map_of opts ''num_predict'' = Some (JNum 100) \<and>
      map_of opts ''seed'' = Some (JNum 42) \<and>
      map_of opts ''stop'' = Some (JArr [JStr ''END'']) \<and>
      map_of opts ''frequency_penalty'' = None \<and>
      map_of opts ''presence_penalty'' = Some (JNum 0.5))"
proof -
  have h1: "accept example_request_custom JNull = Inr example_request_custom"
    by (simp add: accept_def)
  have h2: "cr_model example_request_custom \<in> set (getAllAvailableModels example_registry)"
    by (simp add: example_request_custom_def example_request_def example_registry_def
        getAllAvailableModels_def inventory_def)
  show ?thesis
    using options_forwarded [where validate = "accept example_request_custom" and body = JNull
        and v = example_request_custom and reg = example_registry and e = example_env
        and later = 0 and stringify = "\<lambda>v. []" and sched = "scripted [] example_result",
        OF h1 h2] h1 h2
    by (fastforce simp: example_request_custom_def example_request_def)
qed

lemma not_available:
  assumes "\<forall>w \<in> set reg. model \<notin> md_name ` set (inventory w)"
  shows "model \<notin> set (getAllAvailableModels reg)"
  using assms by (auto simp: getAllAvailableModels_def)

text \<open>
  C7. If the request passes validation and no worker of the fleet advertises its model,
  the handler fails with the 404 error of \<^verbatim>\<open>validateModelExists\<close>: no call is made to the
  scheduler (no job is built, submitted or enqueued, so the queue is untouched) and
  nothing is written to the response.
\<close>

theorem unknown_model_rejected_before_submission:
  assumes "validate body = Inr v"
    and "\<forall>w \<in> set reg. cr_model v \<notin> md_name ` set (inventory w)"
  shows "http_status (post_v1_completions e later stringify validate reg sched body) = 404 \<and>
    (\<exists>message. out_thrown (post_v1_completions e later stringify validate reg sched body) =
       Some (message, 404)) \<and>
    out_calls (post_v1_completions e later stringify validate reg sched body) = [] \<and>
    out_res (post_v1_completions e later stringify validate reg sched body) = res_initial"
  using assms(1) not_available [OF assms(2)]
  by (simp add: post_v1_completions_def validateModelExists_def http_status_def)

theorem unknown_model_rejected_before_submission_witness:
  "accept (example_request\<lparr> cr_model := ''unknown'' \<rparr>) JNull =
     Inr (example_request\<lparr> cr_model := ''unknown'' \<rparr>) \<and>
   ''unknown'' \<notin> md_name ` set (inventory (hd example_registry)) \<and>
   length example_registry = 1 \<and>
   http_status (post_v1_completions example_env 0 (\<lambda>v. [])
      (accept (example_request\<lparr> cr_model := ''unknown'' \<rparr>)) example_registry
      (scripted [] example_result) JNull) = 404 \<and>
   out_calls (post_v1_completions example_env 0 (\<lambda>v. [])
      (accept (example_request\<lparr> cr_model := ''unknown'' \<rparr>)) example_registry
      (scripted [] example_result) JNull) = []"
proof -
  have h1: "accept (example_request\<lparr> cr_model := ''unknown'' \<rparr>) JNull =
     Inr (example_request\<lparr> cr_model := ''unknown'' \<rparr>)"
    by (simp add: accept_def)
  have h2: "\<forall>w \<in> set example_registry.
      cr_model (example_request\<lparr> cr_model := ''unknown'' \<rparr>) \<notin> md_name ` set (inventory w)"
    by (simp add: example_registry_def inventory_def)
  show ?thesis
    using unknown_model_rejected_before_submission
      [where validate = "accept (example_request\<lparr> cr_model := ''unknown'' \<rparr>)" and body = JNull
        and v = "example_request\<lparr> cr_model := ''unknown'' \<rparr>" and reg = example_registry
        and e = example_env and later = 0 and stringify = "\<lambda>v. []"
        and sched = "scripted [] example_result", OF h1 h2] h1 h2
    by (simp add: example_registry_def)
qed








subsection \<open>Finish reason and echo, path by path\<close>

text \<open>
  What each path of the completions handler does for any worker result: the non-streaming
  conversion derives the finish reason and prepends the prompt once; the final streaming
  frame always says \<^verbatim>\<open>stop\<close>; a streaming chunk gets the prompt iff nothing but empty deltas
  came before it.
\<close>

lemma finish_reason_rules:
  "(resp_done_reason r = Some ''stop'' \<longrightarrow> finish_reason r = ''stop'') \<and>
   (resp_done_reason r = Some ''length'' \<longrightarrow> finish_reason r = ''length'') \<and>
   (resp_done_reason r = None \<and> resp_eval_count r = Some 0 \<longrightarrow> finish_reason r = ''length'') \<and>
   (resp_done_reason r = None \<and> resp_eval_count r \<noteq> Some 0 \<longrightarrow> finish_reason r = ''stop'')"
  by (simp add: finish_reason_def)

lemma non_streaming_choice:
  "tc_choices (convertToOpenAICompletionsResponse now r model rid p echo logprobs) =
     [\<lparr> choice_text = (if echo then p @ or_empty (resp_response r) else or_empty (resp_response r)),
        choice_index = 0, choice_logprobs = None,
        choice_finish_reason = Some (finish_reason r) \<rparr>]"
  by (simp add: convertToOpenAICompletionsResponse_def Let_def logprobs_field_def)

lemma final_frame_finish_reason:
  "map choice_finish_reason (tc_choices (finalChunk v rid cr result)) = [Some ''stop'']"
  by (simp add: finalChunk_def)

lemma frame_texts_append: "frame_texts (xs @ ys) = frame_texts xs @ frame_texts ys"
  by (induction xs rule: frame_texts.induct) auto

lemma onChunk_text:
  assumes "\<not> res_ended res"
  shows "frame_texts (res_writes (snd (onChunk v p rid cr chunk (sofar, res)))) =
     frame_texts (res_writes res) @
       [if cr_echo v \<and> sofar = [] then p @ or_empty (chunk_response chunk)
        else or_empty (chunk_response chunk)]"
  using assms
  by (simp add: onChunk_def Let_def streamOpenAIResponse_def frame_texts_append)

text \<open>
  C1. The finish reason is derived from the worker's termination reason and token count
  in the non-streaming response only. For a worker result with \<^verbatim>\<open>done_reason = "length"\<close>
  the non-streaming body reports \<^verbatim>\<open>length\<close>, and the final frame of the streaming response
  reports \<^verbatim>\<open>stop\<close>.
\<close>

theorem streaming_finish_reason_is_always_stop:
  "body_finish_reasons (res_json (out_res
      (post_v1_completions example_env 0 (\<lambda>v. []) (accept (example_request\<lparr> cr_stream := False \<rparr>))
         example_registry (scripted [] length_result) JNull))) = [Some ''length''] \<and>
   frame_finish_reasons (res_writes (out_res
      (post_v1_completions example_env 0 (\<lambda>v. []) (accept example_request)
         example_registry (scripted [delta ''He'', OnComplete length_result] length_result) JNull))) =
     [None, Some ''stop'']"
  by (simp add: run_defs)

text \<open>
  C2. With \<^verbatim>\<open>echo=true\<close>, prompt \<^verbatim>\<open>Hi\<close> and the worker deltas \<^verbatim>\<open>""\<close>, \<^verbatim>\<open>He\<close>, \<^verbatim>\<open>llo\<close>, the
  streaming handler prepends the prompt to the first chunk and again to the second.
\<close>

theorem echo_prompt_repeated_after_empty_delta:
  "frame_texts (res_writes (out_res
      (post_v1_completions example_env 0 (\<lambda>v. []) (accept example_request) example_registry
         (scripted [delta '''', delta ''He'', delta ''llo'', OnComplete example_result] example_result)
         JNull))) =
     [''Hi'', ''HiHe'', ''llo'', '''']"
  by (simp add: run_defs)

subsection \<open>The models handler\<close>

lemmas models_defs = get_v1_models_def getAllWorkers_def aggregate_models_def inventory_def
  worker_with_def m1_old_def m1_new_def m0_def model_entry_of_def created_of_def
  example_parse_date_def array_sort_def code_unit_compare_def Let_def

lemma set_insert_sorted: "set (insert_sorted cmp x ys) = insert x (set ys)"
  by (induction ys) auto

lemma set_array_sort: "set (array_sort cmp xs) = set xs"
  by (induction xs) (auto simp: array_sort_def set_insert_sorted)

lemma distinct_insert_sorted:
  "distinct (insert_sorted cmp x ys) = (x \<notin> set ys \<and> distinct ys)"
  by (induction ys) (auto simp: set_insert_sorted)

lemma distinct_array_sort: "distinct (array_sort cmp xs) = distinct xs"
  by (induction xs) (auto simp: array_sort_def distinct_insert_sorted set_array_sort [unfolded array_sort_def])

lemma map_insert_sorted:
  "map f (insert_sorted (\<lambda>a b. cmp (f a) (f b)) x ys) = insert_sorted cmp (f x) (map f ys)"
  by (induction ys) auto

lemma map_array_sort:
  "map f (array_sort (\<lambda>a b. cmp (f a) (f b)) xs) = array_sort cmp (map f xs)"
  by (induction xs) (auto simp: array_sort_def map_insert_sorted)

lemma sorted_insert_sorted:
  assumes total: "\<And>a b. cmp a b \<le> 0 \<or> cmp b a \<le> 0"
    and trans: "\<And>a b c. cmp a b \<le> 0 \<Longrightarrow> cmp b c \<le> 0 \<Longrightarrow> cmp a c \<le> 0"
    and "sorted_wrt (\<lambda>a b. cmp a b \<le> 0) ys"
  shows "sorted_wrt (\<lambda>a b. cmp a b \<le> 0) (insert_sorted cmp x ys)"
  using assms(3)
proof (induction ys)
  case Nil
  then show ?case by simp
next
  case (Cons y ys)
  show ?case
  proof (cases "cmp x y \<le> 0")
    case True
    with Cons.prems trans show ?thesis by auto
  next
    case False
    with total have "cmp y x \<le> 0" by blast
    with False Cons show ?thesis by (auto simp: set_insert_sorted)
  qed
qed

lemma sorted_array_sort:
  assumes "\<And>a b. cmp a b \<le> 0 \<or> cmp b a \<le> 0"
    and "\<And>a b c. cmp a b \<le> 0 \<Longrightarrow> cmp b c \<le> 0 \<Longrightarrow> cmp a c \<le> 0"
  shows "sorted_wrt (\<lambda>a b. cmp a b \<le> 0) (array_sort cmp xs)"
proof (induction xs)
  case Nil
  then show ?case by (simp add: array_sort_def)
next
  case (Cons x xs)
  have "array_sort cmp (x # xs) = insert_sorted cmp x (array_sort cmp xs)"
    by (simp add: array_sort_def)
  with sorted_insert_sorted [of cmp "array_sort cmp xs" x, OF assms Cons] show ?case
    by simp
qed


lemma add_models_append:
  "add_models pd now (xs @ ys) mm = add_models pd now ys (add_models pd now xs mm)"
  by (induction xs arbitrary: mm) auto

lemma aggregate_from:
  "foldl (\<lambda>modelsMap worker. add_models pd now (inventory worker) modelsMap) mm workers =
     add_models pd now (advertised workers) mm"
  by (induction workers arbitrary: mm) (auto simp: advertised_def add_models_append)

lemma aggregate_models_advertised:
  "aggregate_models pd now workers = add_models pd now (advertised workers) []"
  by (simp add: aggregate_models_def aggregate_from)

lemma add_models_keys:
  "fst ` set (add_models pd now ds mm) = fst ` set mm \<union> md_name ` set ds"
proof (induction ds arbitrary: mm)
  case Nil
  then show ?case by simp
next
  case (Cons d ds)
  show ?case
  proof (cases "map_of mm (md_name d) = None")
    case True
    then show ?thesis by (auto simp: Cons.IH)
  next
    case False
    then have "md_name d \<in> fst ` set mm"
      by (simp add: map_of_eq_None_iff)
    with False show ?thesis by (auto simp: Cons.IH)
  qed
qed

lemma add_models_distinct:
  "distinct (map fst mm) \<Longrightarrow> distinct (map fst (add_models pd now ds mm))"
proof (induction ds arbitrary: mm)
  case Nil
  then show ?case by simp
next
  case (Cons d ds)
  let ?mm = "if map_of mm (md_name d) = None
    then mm @ [(md_name d, model_entry_of pd now d)] else mm"
  have "distinct (map fst ?mm)"
    using Cons.prems by (auto simp: map_of_eq_None_iff)
  then have "distinct (map fst (add_models pd now ds ?mm))"
    by (rule Cons.IH)
  then show ?case by simp
qed

lemma add_models_entries:
  "p \<in> set (add_models pd now ds mm) \<Longrightarrow>
     p \<in> set mm \<or> (\<exists>d \<in> set ds. p = (md_name d, model_entry_of pd now d))"
proof (induction ds arbitrary: mm)
  case Nil
  then show ?case by simp
next
  case (Cons d ds)
  from Cons.IH [OF Cons.prems [simplified]] show ?case
    by (auto split: if_splits)
qed



lemma aggregate_key_is_id:
  "p \<in> set (aggregate_models pd now workers) \<Longrightarrow> me_id (snd p) = fst p"
  using add_models_entries [of p pd now "advertised workers" "[]"]
  by (auto simp: aggregate_models_advertised model_entry_of_def)

lemma aggregate_ids:
  "map me_id (map snd (aggregate_models pd now workers)) = map fst (aggregate_models pd now workers)"
  by (simp add: aggregate_key_is_id)

lemma aggregate_keys:
  "set (map fst (aggregate_models pd now workers)) = md_name ` set (advertised workers)"
  using add_models_keys [of pd now "advertised workers" "[]"]
  by (simp add: aggregate_models_advertised)

lemma aggregate_distinct: "distinct (map fst (aggregate_models pd now workers))"
  using add_models_distinct [of "[]" pd now "advertised workers"]
  by (simp add: aggregate_models_advertised)

lemma data_unfold:
  "mr_data (get_v1_models pd now lc reg) =
     array_sort (\<lambda>a b. lc (me_id a) (me_id b)) (map snd (aggregate_models pd now reg))"
  by (simp add: get_v1_models_def getAllWorkers_def)

lemma data_ids:
  "map me_id (mr_data (get_v1_models pd now lc reg)) =
     array_sort lc (map fst (aggregate_models pd now reg))"
  unfolding data_unfold map_array_sort aggregate_ids ..

lemma data_entries:
  assumes "e \<in> set (mr_data (get_v1_models pd now lc reg))"
  shows "\<exists>d \<in> set (advertised reg). e = model_entry_of pd now d"
proof -
  from assms obtain n where "(n, e) \<in> set (aggregate_models pd now reg)"
    by (auto simp: data_unfold set_array_sort)
  with add_models_entries [of "(n, e)" pd now "advertised reg" "[]"] show ?thesis
    by (auto simp: aggregate_models_advertised)
qed

lemma consistent_total: "consistent_comparison c \<Longrightarrow> c a b \<le> 0 \<or> c b a \<le> 0"
  unfolding consistent_comparison_def by blast

lemma consistent_trans:
  "consistent_comparison c \<Longrightarrow> c a b \<le> 0 \<Longrightarrow> c b d \<le> 0 \<Longrightarrow> c a d \<le> 0"
  unfolding consistent_comparison_def by blast

text \<open>
  C3, as amended. The reply of \<^verbatim>\<open>/v1/models\<close> lists the union of the inventories of all
  the workers the registry enumerates, whatever their liveness, with exactly one entry
  per distinct model name, sorted by id in the order of the comparison; each entry is
  owned by \<^verbatim>\<open>gridllm\<close> and its \<^verbatim>\<open>created\<close> is derived, in seconds, from the modification time
  of a descriptor of that name (from the clock when the descriptor has none).
\<close>

theorem models_listing:
  assumes "consistent_comparison localeCompare"
  shows "set (map me_id (mr_data (get_v1_models parse_date now_ms localeCompare reg))) =
      md_name ` set (advertised reg) \<and>
    distinct (map me_id (mr_data (get_v1_models parse_date now_ms localeCompare reg))) \<and>
    sorted_wrt (\<lambda>a b. localeCompare a b \<le> 0)
      (map me_id (mr_data (get_v1_models parse_date now_ms localeCompare reg))) \<and>
    (\<forall>e \<in> set (mr_data (get_v1_models parse_date now_ms localeCompare reg)).
       me_owned_by e = ''gridllm'' \<and>
       (\<exists>d \<in> set (advertised reg).
          me_id e = md_name d \<and> me_created e = created_of parse_date now_ms d))"
proof (intro conjI ballI)
  show "set (map me_id (mr_data (get_v1_models parse_date now_ms localeCompare reg))) =
      md_name ` set (advertised reg)"
    unfolding data_ids set_array_sort by (rule aggregate_keys)
  show "distinct (map me_id (mr_data (get_v1_models parse_date now_ms localeCompare reg)))"
    unfolding data_ids distinct_array_sort by (rule aggregate_distinct)
  show "sorted_wrt (\<lambda>a b. localeCompare a b \<le> 0)
      (map me_id (mr_data (get_v1_models parse_date now_ms localeCompare reg)))"
    unfolding data_ids
    by (rule sorted_array_sort [OF consistent_total [OF assms] consistent_trans [OF assms]])
next
  fix e assume e: "e \<in> set (mr_data (get_v1_models parse_date now_ms localeCompare reg))"
  from data_entries [OF e] obtain d where
    d: "d \<in> set (advertised reg)" "e = model_entry_of parse_date now_ms d"
    by blast
  then show "me_owned_by e = ''gridllm''"
    by (simp add: model_entry_of_def)
  from d show "\<exists>d \<in> set (advertised reg).
      me_id e = md_name d \<and> me_created e = created_of parse_date now_ms d"
    by (auto simp: model_entry_of_def)
qed

lemma code_unit_compare_le: "(code_unit_compare a b \<le> 0) = (a \<le> b)"
  by (simp add: code_unit_compare_def order_le_less)

lemma linear_code_unit_compare: "linear_comparison code_unit_compare"
proof -
  have 1: "\<forall>a b :: string. a \<le> b \<or> b \<le> a"
    by (simp add: linear)
  have 2: "\<forall>a b c :: string. a \<le> b \<and> b \<le> c \<longrightarrow> a \<le> c"
    by (blast intro: order_trans)
  have 3: "\<forall>a b :: string. a \<le> b \<and> b \<le> a \<longrightarrow> a = b"
    by (blast intro: antisym)
  show ?thesis
    unfolding linear_comparison_def consistent_comparison_def code_unit_compare_le
    using 1 2 3 by (intro conjI)
qed

theorem models_listing_witness:
  "consistent_comparison code_unit_compare \<and>
   map me_id (mr_data (get_v1_models example_parse_date 5000 code_unit_compare
      [worker_with ''W1'' Ready [m1_old], worker_with ''W2'' Draining [m1_new, m0]])) =
     [''m0'', ''m1''] \<and>
   md_name ` set (advertised
      [worker_with ''W1'' Ready [m1_old], worker_with ''W2'' Draining [m1_new, m0]]) =
     set [''m0'', ''m1''] \<and>
   sorted_wrt (\<lambda>a b. code_unit_compare a b \<le> 0) [''m0'', ''m1'']"
proof -
  let ?reg = "[worker_with ''W1'' Ready [m1_old], worker_with ''W2'' Draining [m1_new, m0]]"
  have c: "consistent_comparison code_unit_compare"
    using linear_code_unit_compare by (simp add: linear_comparison_def)
  have ids: "map me_id (mr_data (get_v1_models example_parse_date 5000 code_unit_compare ?reg)) =
     [''m0'', ''m1'']"
    by (simp add: models_defs)
  note listing = models_listing [OF c, of example_parse_date 5000 ?reg]
  have s1: "md_name ` set (advertised ?reg) = set [''m0'', ''m1'']"
    using listing [THEN conjunct1] unfolding ids by (rule sym)
  have s3: "sorted_wrt (\<lambda>a b. code_unit_compare a b \<le> 0) [''m0'', ''m1'']"
    using listing [THEN conjunct2, THEN conjunct2, THEN conjunct1] unfolding ids .
  from c ids s1 s3 show ?thesis
    by (intro conjI)
qed

text \<open>
  C3, as stated, fails: a worker that is lost is not ready, and the model it advertises is
  listed all the same.
\<close>

theorem models_listing_not_ready_only:
  "map me_id (mr_data (get_v1_models example_parse_date 5000 code_unit_compare
      [worker_with ''W2'' Lost [m1_new]])) = [''m1''] \<and>
   getAllAvailableModels [worker_with ''W2'' Lost [m1_new]] = []"
  by (simp add: models_defs getAllAvailableModels_def)

















text \<open>
  Where the comparison returns 0 for two different names, the stable sort keeps them in
  enumeration order: with comparison by length, the ids follow the order of the workers.
\<close>

lemma ids_follow_enumeration_on_ties:
  "consistent_comparison compare_length \<and>
   map me_id (mr_data (get_v1_models example_parse_date 5000 compare_length
      [worker_with ''W1'' Ready [m1_old], worker_with ''W2'' Ready [m0]])) = [''m1'', ''m0''] \<and>
   map me_id (mr_data (get_v1_models example_parse_date 5000 compare_length
      [worker_with ''W2'' Ready [m0], worker_with ''W1'' Ready [m1_old]])) = [''m0'', ''m1'']"
proof -
  have "consistent_comparison compare_length"
    unfolding consistent_comparison_def compare_length_def by auto
  then show ?thesis
    by (simp add: models_defs compare_length_def)
qed




subsection \<open>The streaming adapter\<close>

lemmas stream_defs = generateStreamResponse_def generateChatStreamResponse_def streaming_def
  example_parse_def line_He_def line_llo_def line_done_def ascii_blank_def
  to_response_def to_chat_response_def prepend_def end_completion_def js_or_def js_get_opt_def
  obj_get_def obj_assign_def obj_set_def example_chat_request_def example_adapter_request_def
  metadata_get_def Let_def

lemma split_nl_nonempty: "split_nl s \<noteq> []"
  by (induction s) (auto split: list.splits)

lemma split_nl_no_newline: "l \<in> set (split_nl s) \<Longrightarrow> CHR 0x0A \<notin> set l"
proof (induction s arbitrary: l)
  case Nil
  then show ?case by simp
next
  case (Cons c s)
  show ?case
  proof (cases "c = CHR 0x0A")
    case True
    with Cons show ?thesis by auto
  next
    case False
    obtain x xs where s: "split_nl s = x # xs"
      using split_nl_nonempty [of s] by (cases "split_nl s") auto
    with False Cons.prems have "l = c # x \<or> l \<in> set xs" by auto
    with False Cons.IH s show ?thesis by auto
  qed
qed

lemma last_split_nl_no_newline: "CHR 0x0A \<notin> set (last (split_nl s))"
  using split_nl_no_newline [of "last (split_nl s)" s] split_nl_nonempty [of s]
  by simp

lemma split_nl_single: "CHR 0x0A \<notin> set s \<Longrightarrow> split_nl s = [s]"
  by (induction s) auto

lemma split_nl_append:
  "split_nl (a @ b) = butlast (split_nl a) @ split_nl (last (split_nl a) @ b)"
proof (induction a)
  case Nil
  then show ?case by simp
next
  case (Cons c a)
  obtain l ls where s: "split_nl a = l # ls"
    using split_nl_nonempty [of a] by (cases "split_nl a") auto
  show ?case
  proof (cases "c = CHR 0x0A")
    case True
    with Cons s show ?thesis by simp
  next
    case False
    show ?thesis
    proof (cases ls)
      case Nil
      with False Cons s show ?thesis by simp
    next
      case (Cons y ys)
      with False Cons.IH s show ?thesis by simp
    qed
  qed
qed

lemma complete_lines_append:
  "butlast (split_nl (a @ b)) = butlast (split_nl a) @ butlast (split_nl (last (split_nl a) @ b))"
  by (subst split_nl_append) (simp add: butlast_append split_nl_nonempty)

lemma process_lines_append:
  "process_lines blank parse rid (xs @ ys) =
     (if snd (process_lines blank parse rid xs) then process_lines blank parse rid xs
      else (fst (process_lines blank parse rid xs) @ fst (process_lines blank parse rid ys),
            snd (process_lines blank parse rid ys)))"
  by (induction xs) (auto simp: prepend_def split: option.splits)

lemma stream_loop_lines:
  assumes "CHR 0x0A \<notin> set buffer"
  shows "stream_loop blank parse rid buffer chunks e =
     (fst (process_lines blank parse rid (butlast (split_nl (buffer @ concat chunks)))),
      if snd (process_lines blank parse rid (butlast (split_nl (buffer @ concat chunks))))
      then Returned else end_completion ''Streaming inference failed: '' e)"
  using assms
proof (induction chunks arbitrary: buffer)
  case Nil
  then show ?case by (simp add: split_nl_single)
next
  case (Cons chunk chunks)
  let ?lines = "split_nl (buffer @ chunk)"
  have eq: "butlast (split_nl (buffer @ concat (chunk # chunks))) =
      butlast ?lines @ butlast (split_nl (last ?lines @ concat chunks))"
    using complete_lines_append [of "buffer @ chunk" "concat chunks"] by simp
  have ih: "stream_loop blank parse rid (last ?lines) chunks e =
     (fst (process_lines blank parse rid (butlast (split_nl (last ?lines @ concat chunks)))),
      if snd (process_lines blank parse rid (butlast (split_nl (last ?lines @ concat chunks))))
      then Returned else end_completion ''Streaming inference failed: '' e)"
    by (rule Cons.IH) (rule last_split_nl_no_newline)
  show ?case
    unfolding eq process_lines_append
    by (simp add: ih Let_def)
qed

lemma process_chat_lines_append:
  "process_chat_lines blank parse rid (xs @ ys) =
     process_chat_lines blank parse rid xs @ process_chat_lines blank parse rid ys"
  by (induction xs) (auto split: option.splits)

lemma chat_stream_loop_lines:
  assumes "CHR 0x0A \<notin> set buffer"
  shows "chat_stream_loop blank parse rid buffer chunks End_of_stream =
     (process_chat_lines blank parse rid (split_nl (buffer @ concat chunks)), Returned)"
  using assms
proof (induction chunks arbitrary: buffer)
  case Nil
  then show ?case by (simp add: split_nl_single)
next
  case (Cons chunk chunks)
  let ?lines = "split_nl (buffer @ chunk)"
  have eq: "split_nl (buffer @ concat (chunk # chunks)) =
      butlast ?lines @ split_nl (last ?lines @ concat chunks)"
    using split_nl_append [of "buffer @ chunk" "concat chunks"] by simp
  have ih: "chat_stream_loop blank parse rid (last ?lines) chunks End_of_stream =
     (process_chat_lines blank parse rid (split_nl (last ?lines @ concat chunks)), Returned)"
    by (rule Cons.IH) (rule last_split_nl_no_newline)
  show ?case
    unfolding eq process_chat_lines_append
    by (simp add: ih Let_def)
qed







lemma generate_run:
  assumes "post_stream ''/api/generate'' (generate_payload request True) = Inr (chunks, e)"
  shows "generateStreamResponse post_stream blank parse request =
     (fst (process_lines blank parse (ir_id request) (butlast (split_nl (concat chunks)))),
      if snd (process_lines blank parse (ir_id request) (butlast (split_nl (concat chunks))))
      then Returned else end_completion ''Streaming inference failed: '' e)"
  using assms stream_loop_lines [where buffer = "[]" and blank = blank and parse = parse and rid = "ir_id request"
      and chunks = chunks and e = e]
  by (simp add: generateStreamResponse_def)





lemma chat_run:
  assumes "truthy (metadata_get request ''messages'')"
    and "post_stream ''/api/chat'' (chat_payload request True) = Inr (chunks, End_of_stream)"
  shows "generateChatStreamResponse post_stream blank parse request =
     (process_chat_lines blank parse (ir_id request) (split_nl (concat chunks)), Returned)"
  using assms chat_stream_loop_lines [where buffer = "[]" and blank = blank and parse = parse
      and rid = "ir_id request" and chunks = chunks]
  by (simp add: generateChatStreamResponse_def)

lemma chat_stream_loop_failed:
  assumes "CHR 0x0A \<notin> set buffer"
  shows "chat_stream_loop blank parse rid buffer chunks (Stream_error message) =
     (process_chat_lines blank parse rid (butlast (split_nl (buffer @ concat chunks))),
      Thrown (''Chat stream inference failed: '' @ message))"
  using assms
proof (induction chunks arbitrary: buffer)
  case Nil
  then show ?case by (simp add: split_nl_single)
next
  case (Cons chunk chunks)
  let ?lines = "split_nl (buffer @ chunk)"
  have eq: "butlast (split_nl (buffer @ concat (chunk # chunks))) =
      butlast ?lines @ butlast (split_nl (last ?lines @ concat chunks))"
    using complete_lines_append [of "buffer @ chunk" "concat chunks"] by simp
  have ih: "chat_stream_loop blank parse rid (last ?lines) chunks (Stream_error message) =
     (process_chat_lines blank parse rid (butlast (split_nl (last ?lines @ concat chunks))),
      Thrown (''Chat stream inference failed: '' @ message))"
    by (rule Cons.IH) (rule last_split_nl_no_newline)
  show ?case
    unfolding eq process_chat_lines_append
    by (simp add: ih Let_def)
qed

lemma chat_run_failed:
  assumes "truthy (metadata_get request ''messages'')"
    and "post_stream ''/api/chat'' (chat_payload request True) = Inr (chunks, Stream_error message)"
  shows "generateChatStreamResponse post_stream blank parse request =
     (process_chat_lines blank parse (ir_id request) (butlast (split_nl (concat chunks))),
      Thrown (''Chat stream inference failed: '' @ message))"
  using assms chat_stream_loop_failed [where buffer = "[]" and blank = blank and parse = parse
      and rid = "ir_id request" and chunks = chunks and message = message]
  by (simp add: generateChatStreamResponse_def)

text \<open>
  C8, as amended. The parser treats the stream as newline-delimited records. In
  \<^verbatim>\<open>generateStreamResponse\<close> what is yielded and logged depends on the complete lines of the
  whole stream only, however it is cut into chunks: a partial line stays in the buffer
  until its newline arrives, and a remainder without newline is dropped when the stream
  ends. In \<^verbatim>\<open>generateChatStreamResponse\<close> the remainder is parsed like a line when the stream
  ends. A complete line that does not trim to the empty string and fails to parse is
  logged and skipped, and the rest is processed as before. When the stream ends, also in
  the middle of a record, both generators return and throw nothing. When the transport
  fails, the chat generator throws after the complete lines, and the generate variant
  throws unless it has already returned on a record with \<^verbatim>\<open>done\<close>.
\<close>

theorem stream_parser_buffers_and_skips:
  "(post_stream ''/api/generate'' (generate_payload request True) = Inr (chunks, e) \<longrightarrow>
      fst (generateStreamResponse post_stream blank parse request) =
        fst (process_lines blank parse (ir_id request) (butlast (split_nl (concat chunks)))) \<and>
      (e = End_of_stream \<longrightarrow>
         snd (generateStreamResponse post_stream blank parse request) = Returned) \<and>
      (e = Stream_error message \<longrightarrow>
         snd (generateStreamResponse post_stream blank parse request) =
           (if snd (process_lines blank parse (ir_id request) (butlast (split_nl (concat chunks))))
            then Returned else Thrown (''Streaming inference failed: '' @ message)))) \<and>
   (truthy (metadata_get request ''messages'') \<and>
    post_stream ''/api/chat'' (chat_payload request True) = Inr (chunks, End_of_stream) \<longrightarrow>
      generateChatStreamResponse post_stream blank parse request =
        (process_chat_lines blank parse (ir_id request) (split_nl (concat chunks)), Returned)) \<and>
   (truthy (metadata_get request ''messages'') \<and>
    post_stream ''/api/chat'' (chat_payload request True) = Inr (chunks, Stream_error message) \<longrightarrow>
      generateChatStreamResponse post_stream blank parse request =
        (process_chat_lines blank parse (ir_id request) (butlast (split_nl (concat chunks))),
         Thrown (''Chat stream inference failed: '' @ message))) \<and>
   (\<not> blank line \<and> parse line = None \<longrightarrow>
      process_lines blank parse rid (line # rest) =
        prepend (Warn line) (process_lines blank parse rid rest) \<and>
      process_chat_lines blank parse rid (line # rest) =
        Warn line # process_chat_lines blank parse rid rest)"
proof (intro conjI impI)
  assume a: "post_stream ''/api/generate'' (generate_payload request True) = Inr (chunks, e)"
  note run = generate_run [where post_stream = post_stream and request = request
      and blank = blank and parse = parse, OF a]
  show "fst (generateStreamResponse post_stream blank parse request) =
        fst (process_lines blank parse (ir_id request) (butlast (split_nl (concat chunks))))"
    unfolding run by simp
  {
    assume "e = End_of_stream"
    then show "snd (generateStreamResponse post_stream blank parse request) = Returned"
      unfolding run by (simp add: end_completion_def)
  }
  {
    assume "e = Stream_error message"
    then show "snd (generateStreamResponse post_stream blank parse request) =
           (if snd (process_lines blank parse (ir_id request) (butlast (split_nl (concat chunks))))
            then Returned else Thrown (''Streaming inference failed: '' @ message))"
      unfolding run by (simp add: end_completion_def)
  }
next
  assume "truthy (metadata_get request ''messages'') \<and>
    post_stream ''/api/chat'' (chat_payload request True) = Inr (chunks, End_of_stream)"
  then show "generateChatStreamResponse post_stream blank parse request =
        (process_chat_lines blank parse (ir_id request) (split_nl (concat chunks)), Returned)"
    using chat_run by blast
next
  assume "truthy (metadata_get request ''messages'') \<and>
    post_stream ''/api/chat'' (chat_payload request True) = Inr (chunks, Stream_error message)"
  then show "generateChatStreamResponse post_stream blank parse request =
        (process_chat_lines blank parse (ir_id request) (butlast (split_nl (concat chunks))),
         Thrown (''Chat stream inference failed: '' @ message))"
    using chat_run_failed by blast
next
  assume "\<not> blank line \<and> parse line = None"
  then show "process_lines blank parse rid (line # rest) =
      prepend (Warn line) (process_lines blank parse rid rest)"
    by simp
next
  assume "\<not> blank line \<and> parse line = None"
  then show "process_chat_lines blank parse rid (line # rest) =
      Warn line # process_chat_lines blank parse rid rest"
    by simp
qed

theorem stream_parser_buffers_and_skips_witness:
  "streaming garbled_chunks End_of_stream ''/api/generate''
      (generate_payload example_chat_request True) = Inr (garbled_chunks, End_of_stream) \<and>
   fst (generateStreamResponse (streaming garbled_chunks End_of_stream) ascii_blank example_parse
      example_chat_request) =
     [Yield \<lparr> sr_id = ''job-1'', sr_response = JStr ''He'', sr_done = JBool False \<rparr>,
      Warn ''garbage''] \<and>
   snd (generateStreamResponse (streaming garbled_chunks End_of_stream) ascii_blank example_parse
      example_chat_request) = Returned \<and>
   snd (generateStreamResponse (streaming garbled_chunks (Stream_error ''socket hang up''))
      ascii_blank example_parse example_chat_request) =
     Thrown ''Streaming inference failed: socket hang up'' \<and>
   truthy (metadata_get example_chat_request ''messages'') \<and>
   generateChatStreamResponse (streaming garbled_chunks End_of_stream) ascii_blank example_parse
      example_chat_request =
     (process_chat_lines ascii_blank example_parse (ir_id example_chat_request)
        (split_nl (concat garbled_chunks)), Returned) \<and>
   generateChatStreamResponse (streaming garbled_chunks (Stream_error ''socket hang up''))
      ascii_blank example_parse example_chat_request =
     (process_chat_lines ascii_blank example_parse (ir_id example_chat_request)
        (butlast (split_nl (concat garbled_chunks))),
      Thrown ''Chat stream inference failed: socket hang up'') \<and>
   \<not> ascii_blank ''garbage'' \<and>
   example_parse ''garbage'' = None \<and>
   process_lines ascii_blank example_parse ''job-1'' [''garbage'', line_He] =
     prepend (Warn ''garbage'') (process_lines ascii_blank example_parse ''job-1'' [line_He])"
proof -
  let ?failed = "streaming garbled_chunks (Stream_error ''socket hang up'')"
  have h1: "streaming garbled_chunks End_of_stream ''/api/generate''
      (generate_payload example_chat_request True) = Inr (garbled_chunks, End_of_stream)"
    by (simp add: streaming_def)
  have h1': "?failed ''/api/generate'' (generate_payload example_chat_request True) =
      Inr (garbled_chunks, Stream_error ''socket hang up'')"
    by (simp add: streaming_def)
  have m: "truthy (metadata_get example_chat_request ''messages'')"
    by (simp add: metadata_get_def example_chat_request_def obj_get_def)
  have h2: "truthy (metadata_get example_chat_request ''messages'') \<and>
      streaming garbled_chunks End_of_stream ''/api/chat''
        (chat_payload example_chat_request True) = Inr (garbled_chunks, End_of_stream)"
    using m by (simp add: streaming_def)
  have h2': "truthy (metadata_get example_chat_request ''messages'') \<and>
      ?failed ''/api/chat'' (chat_payload example_chat_request True) =
        Inr (garbled_chunks, Stream_error ''socket hang up'')"
    using m by (simp add: streaming_def)
  have h3: "\<not> ascii_blank ''garbage'' \<and> example_parse ''garbage'' = None"
    by (simp add: ascii_blank_def example_parse_def line_He_def line_llo_def line_done_def)
  have lines: "process_lines ascii_blank example_parse (ir_id example_chat_request)
      (butlast (split_nl (concat garbled_chunks))) =
     ([Yield \<lparr> sr_id = ''job-1'', sr_response = JStr ''He'', sr_done = JBool False \<rparr>,
       Warn ''garbage''], False)"
    by (simp add: garbled_chunks_def stream_defs)
  note t = stream_parser_buffers_and_skips
    [where post_stream = "streaming garbled_chunks End_of_stream"
      and request = example_chat_request and chunks = garbled_chunks and e = End_of_stream
      and blank = ascii_blank and parse = example_parse and line = "''garbage''"
      and rid = "''job-1''" and rest = "[line_He]"]
  note t' = stream_parser_buffers_and_skips
    [where post_stream = ?failed
      and request = example_chat_request and chunks = garbled_chunks
      and e = "Stream_error ''socket hang up''" and message = "''socket hang up''"
      and blank = ascii_blank and parse = example_parse]
  from t h1 have g: "fst (generateStreamResponse (streaming garbled_chunks End_of_stream)
      ascii_blank example_parse example_chat_request) =
      fst (process_lines ascii_blank example_parse (ir_id example_chat_request)
        (butlast (split_nl (concat garbled_chunks))))"
    and r: "snd (generateStreamResponse (streaming garbled_chunks End_of_stream) ascii_blank
      example_parse example_chat_request) = Returned"
    by blast+
  from t' h1' have r': "snd (generateStreamResponse ?failed ascii_blank example_parse
      example_chat_request) =
      (if snd (process_lines ascii_blank example_parse (ir_id example_chat_request)
            (butlast (split_nl (concat garbled_chunks))))
       then Returned else Thrown (''Streaming inference failed: '' @ ''socket hang up''))"
    by blast
  from t h2 have c: "generateChatStreamResponse (streaming garbled_chunks End_of_stream)
      ascii_blank example_parse example_chat_request =
     (process_chat_lines ascii_blank example_parse (ir_id example_chat_request)
        (split_nl (concat garbled_chunks)), Returned)"
    by blast
  from t' h2' have c': "generateChatStreamResponse ?failed ascii_blank example_parse
      example_chat_request =
     (process_chat_lines ascii_blank example_parse (ir_id example_chat_request)
        (butlast (split_nl (concat garbled_chunks))),
      Thrown (''Chat stream inference failed: '' @ ''socket hang up''))"
    by blast
  from t h3 have p: "process_lines ascii_blank example_parse ''job-1'' [''garbage'', line_He] =
     prepend (Warn ''garbage'') (process_lines ascii_blank example_parse ''job-1'' [line_He])"
    by blast
  have g2: "fst (generateStreamResponse (streaming garbled_chunks End_of_stream)
      ascii_blank example_parse example_chat_request) =
     [Yield \<lparr> sr_id = ''job-1'', sr_response = JStr ''He'', sr_done = JBool False \<rparr>,
      Warn ''garbage'']"
    using g unfolding lines by simp
  have r2: "snd (generateStreamResponse ?failed ascii_blank example_parse
      example_chat_request) = Thrown ''Streaming inference failed: socket hang up''"
    using r' unfolding lines by simp
  have c2: "generateChatStreamResponse ?failed ascii_blank example_parse
      example_chat_request =
     (process_chat_lines ascii_blank example_parse (ir_id example_chat_request)
        (butlast (split_nl (concat garbled_chunks))),
      Thrown ''Chat stream inference failed: socket hang up'')"
    using c' by simp
  from h1 g2 r r2 m c c2 h3 [THEN conjunct1] h3 [THEN conjunct2] p
  show ?thesis
    by (intro conjI)
qed

text \<open>
  C8, as stated, fails: a stream that ends in the middle of a record is no error. The
  generate variant yields the complete record and returns; the chat variant yields the
  remainder, which never got its newline, when it parses.
\<close>

theorem stream_closed_mid_record_is_no_error:
  "generateStreamResponse (streaming [line_He @ [CHR 0x0A] @ take 9 line_llo] End_of_stream)
      ascii_blank example_parse example_adapter_request =
     ([Yield \<lparr> sr_id = ''job-1'', sr_response = JStr ''He'', sr_done = JBool False \<rparr>], Returned) \<and>
   generateChatStreamResponse (streaming [line_He @ [CHR 0x0A] @ take 9 line_llo] End_of_stream)
      ascii_blank example_parse example_chat_request =
     ([Yield [(''id'', JStr ''job-1''), (''response'', JStr ''He''), (''done'', JBool False)],
       Warn (take 9 line_llo)], Returned) \<and>
   generateChatStreamResponse (streaming [line_He @ [CHR 0x0A] @ line_llo] End_of_stream)
      ascii_blank example_parse example_chat_request =
     ([Yield [(''id'', JStr ''job-1''), (''response'', JStr ''He''), (''done'', JBool False)],
       Yield [(''id'', JStr ''job-1''), (''response'', JStr ''llo''), (''done'', JBool False)]],
      Returned)"
  by (simp add: stream_defs)

end
